theory Spec2Isabelle
  imports Complex_Main
begin

section \<open>Forward Factor scanner: data model\<close>

text \<open>
  The embedding follows \<^verbatim>\<open>ff_scanner.py\<close> (class \<^verbatim>\<open>ForwardFactorScanner\<close>),
  \<^verbatim>\<open>ff_nightly_scanner.py\<close> (class \<^verbatim>\<open>FFScannerService\<close>) and
  \<^verbatim>\<open>ff_earnings_yahoo.py\<close> (class \<^verbatim>\<open>YahooEarningsCalendar\<close>).
  Python floats are read as real numbers (no rounding, no NaN, no infinities), Python
  integers as \<open>int\<close>. Where a branch is decided by an equality or sign test on a computed
  float (the forward variance in the pair selector), a second model of the function keeps
  the rounding as a parameter. Every exception the source can raise on these inputs is a value of
  \<open>py_error\<close>, and every \<^verbatim>\<open>try/except\<close> is a case distinction on it.
\<close>

datatype py_error = ZeroDivisionError | ValueError | KeyError | TypeError

subsection \<open>\<^verbatim>\<open>ForwardFactorScanner.calculate_forward_factor\<close>\<close>

text \<open>
  The function returns a triple \<^verbatim>\<open>(forward_vol, forward_factor, error)\<close>, each component
  possibly \<^verbatim>\<open>None\<close>. The body of the \<^verbatim>\<open>try\<close> block either returns such a triple or raises;
  the \<^verbatim>\<open>except\<close> clause turns the exception into \<^verbatim>\<open>(None, None, str(e))\<close>. Float division
  by zero raises \<^verbatim>\<open>ZeroDivisionError\<close> in Python, where HOL would return \<open>0\<close>, so the
  division is written out. \<^verbatim>\<open>x ** 0.5\<close> is only reached for \<open>x \<ge> 0\<close>, where it is the
  square root.
\<close>

definition py_str :: "py_error \<Rightarrow> string" where
  "py_str e = (case e of
       ZeroDivisionError \<Rightarrow> ''float division by zero''
     | ValueError \<Rightarrow> ''value error''
     | KeyError \<Rightarrow> ''key error''
     | TypeError \<Rightarrow> ''type error'')"

definition py_truediv :: "real \<Rightarrow> real \<Rightarrow> py_error + real" where
  "py_truediv a b = (if b = 0 then Inl ZeroDivisionError else Inr (a / b))"

type_synonym ff_result = "real option \<times> real option \<times> string option"

definition calculate_forward_factor_body ::
  "real \<Rightarrow> int \<Rightarrow> real \<Rightarrow> int \<Rightarrow> py_error + ff_result" where
  "calculate_forward_factor_body front_iv front_dte back_iv back_dte =
     (let T1 = real_of_int front_dte / 365;
          T2 = real_of_int back_dte / 365;
          sigma1 = front_iv / 100;
          sigma2 = back_iv / 100
      in (case py_truediv (sigma2\<^sup>2 * T2 - sigma1\<^sup>2 * T1) (T2 - T1) of
            Inl e \<Rightarrow> Inl e
          | Inr forward_var \<Rightarrow>
              (if forward_var < 0
               then Inr (None, None, Some ''Negative forward variance'')
               else
                 (let forward_vol = sqrt forward_var * 100
                  in (case py_truediv (sigma1 - sqrt forward_var) (sqrt forward_var) of
                        Inl e \<Rightarrow> Inl e
                      | Inr q \<Rightarrow> Inr (Some forward_vol, Some (q * 100), None))))))"

definition calculate_forward_factor :: "real \<Rightarrow> int \<Rightarrow> real \<Rightarrow> int \<Rightarrow> ff_result" where
  "calculate_forward_factor front_iv front_dte back_iv back_dte =
     (case calculate_forward_factor_body front_iv front_dte back_iv back_dte of
        Inl e \<Rightarrow> (None, None, Some (py_str e))
      | Inr r \<Rightarrow> r)"

subsection \<open>The calculator in floating-point arithmetic\<close>

text \<open>
  Which branch \<^verbatim>\<open>calculate_forward_factor\<close> takes depends on the computed value of
  \<^verbatim>\<open>forward_var\<close>, and a double that is zero or negative need not be so in exact arithmetic.
  The following model of the same function keeps the rounding: every floating-point
  operation of the source is the exact operation followed by \<open>rnd\<close>, in the order Python
  evaluates the expression, and \<^verbatim>\<open>x ** 0.5\<close> is \<open>pow_half x\<close>. Nothing is assumed about
  \<open>rnd\<close> and \<open>pow_half\<close>, so what is proved of this model holds of IEEE doubles (overflow to
  infinity and NaN apart). With \<open>rnd\<close> the identity and \<open>pow_half\<close> the square root it is
  the exact model above. \<open>computed_forward_var\<close> is the value of the variable
  \<^verbatim>\<open>forward_var\<close>, or the exception the division raises.
\<close>

definition computed_forward_var ::
  "(real \<Rightarrow> real) \<Rightarrow> real \<Rightarrow> int \<Rightarrow> real \<Rightarrow> int \<Rightarrow> py_error + real" where
  "computed_forward_var rnd front_iv front_dte back_iv back_dte =
     (let T1 = rnd (real_of_int front_dte / 365);
          T2 = rnd (real_of_int back_dte / 365);
          sigma1 = rnd (front_iv / 100);
          sigma2 = rnd (back_iv / 100)
      in (case py_truediv (rnd (rnd (rnd (sigma2\<^sup>2) * T2) - rnd (rnd (sigma1\<^sup>2) * T1)))
                          (rnd (T2 - T1)) of
            Inl e \<Rightarrow> Inl e
          | Inr q \<Rightarrow> Inr (rnd q)))"

definition calculate_forward_factor_fl_body ::
  "(real \<Rightarrow> real) \<Rightarrow> (real \<Rightarrow> real) \<Rightarrow> real \<Rightarrow> int \<Rightarrow> real \<Rightarrow> int \<Rightarrow> py_error + ff_result" where
  "calculate_forward_factor_fl_body rnd pow_half front_iv front_dte back_iv back_dte =
     (let T1 = rnd (real_of_int front_dte / 365);
          T2 = rnd (real_of_int back_dte / 365);
          sigma1 = rnd (front_iv / 100);
          sigma2 = rnd (back_iv / 100)
      in (case py_truediv (rnd (rnd (rnd (sigma2\<^sup>2) * T2) - rnd (rnd (sigma1\<^sup>2) * T1)))
                          (rnd (T2 - T1)) of
            Inl e \<Rightarrow> Inl e
          | Inr q \<Rightarrow>
              (let forward_var = rnd q
               in if forward_var < 0
                  then Inr (None, None, Some ''Negative forward variance'')
                  else
                    (let forward_vol = rnd (pow_half forward_var * 100)
                     in (case py_truediv (rnd (sigma1 - pow_half forward_var))
                                         (pow_half forward_var) of
                           Inl e \<Rightarrow> Inl e
                         | Inr q' \<Rightarrow>
                             Inr (Some forward_vol, Some (rnd (rnd q' * 100)), None))))))"

definition calculate_forward_factor_fl ::
  "(real \<Rightarrow> real) \<Rightarrow> (real \<Rightarrow> real) \<Rightarrow> real \<Rightarrow> int \<Rightarrow> real \<Rightarrow> int \<Rightarrow> ff_result" where
  "calculate_forward_factor_fl rnd pow_half front_iv front_dte back_iv back_dte =
     (case calculate_forward_factor_fl_body rnd pow_half front_iv front_dte back_iv back_dte of
        Inl e \<Rightarrow> (None, None, Some (py_str e))
      | Inr r \<Rightarrow> r)"

subsection \<open>\<^verbatim>\<open>ForwardFactorScanner.find_best_pairs\<close>\<close>

text \<open>
  Expiration dates are \<^verbatim>\<open>datetime.date\<close> values, modelled by their day number. The
  \<^verbatim>\<open>expirations\<close> dictionary is an association list in insertion order, which is the order
  \<^verbatim>\<open>items()\<close> yields; \<^verbatim>\<open>sorted\<close> is stable and so is \<open>sort_key\<close>. The emitted dictionaries
  are records whose \<open>forward_vol\<close> and \<open>forward_factor\<close> keep the calculator's optional
  values. \<^verbatim>\<open>if error: continue\<close> tests the truthiness of the third component: \<^verbatim>\<open>None\<close> and
  the empty string are false. The loop calls the calculator in floating-point arithmetic,
  so it takes \<open>rnd\<close> and \<open>pow_half\<close> too.
\<close>

type_synonym date = int

record term_point =
  iv :: real
  dte :: int
  count :: nat

record pair =
  front_date :: date
  front_iv :: real
  front_dte :: int
  back_date :: date
  back_iv :: real
  back_dte :: int
  forward_vol :: "real option"
  forward_factor :: "real option"

definition truthy_str :: "string option \<Rightarrow> bool" where
  "truthy_str e = (case e of None \<Rightarrow> False | Some s \<Rightarrow> s \<noteq> [])"

fun pairs_loop ::
  "(real \<Rightarrow> real) \<Rightarrow> (real \<Rightarrow> real) \<Rightarrow> (date \<times> term_point) list \<Rightarrow> pair list" where
  "pairs_loop rnd pow_half (f # b # rest) =
     (case calculate_forward_factor_fl rnd pow_half
             (iv (snd f)) (dte (snd f)) (iv (snd b)) (dte (snd b)) of
        (fwd_vol, ff, error) \<Rightarrow>
          (if truthy_str error then pairs_loop rnd pow_half (b # rest)
           else \<lparr>front_date = fst f, front_iv = iv (snd f), front_dte = dte (snd f),
                  back_date = fst b, back_iv = iv (snd b), back_dte = dte (snd b),
                  forward_vol = fwd_vol, forward_factor = ff\<rparr>
                # pairs_loop rnd pow_half (b # rest)))"
| "pairs_loop rnd pow_half [x] = []"
| "pairs_loop rnd pow_half [] = []"

definition find_best_pairs ::
  "(real \<Rightarrow> real) \<Rightarrow> (real \<Rightarrow> real) \<Rightarrow> (date \<times> term_point) list \<Rightarrow> pair list" where
  "find_best_pairs rnd pow_half expirations =
     (let sorted_exp = sort_key (\<lambda>x. dte (snd x)) expirations
      in pairs_loop rnd pow_half sorted_exp)"

subsection \<open>\<^verbatim>\<open>ff_nightly_scanner.py\<close>: records and thresholds\<close>

definition MIN_FORWARD_FACTOR :: real where "MIN_FORWARD_FACTOR = 30"
definition MIN_DTE :: int where "MIN_DTE = 7"
definition MAX_DTE :: int where "MAX_DTE = 180"
definition MIN_IV :: real where "MIN_IV = 15"
definition MAX_IV :: real where "MAX_IV = 150"

record Opportunity =
  ticker :: string
  forward_factor :: real
  signal :: string
  front_date :: string
  front_dte :: int
  front_iv :: real
  back_date :: string
  back_dte :: int
  back_iv :: real
  forward_vol :: real
  scan_id :: int
  opportunity_id :: int
  has_earnings_soon :: bool

definition is_inverted :: "Opportunity \<Rightarrow> bool" where
  "is_inverted opp = (front_iv opp > back_iv opp)"

definition get_dte_diff :: "Opportunity \<Rightarrow> int" where
  "get_dte_diff opp = back_dte opp - front_dte opp"

record EarningsInfo =
  ei_ticker :: string
  earnings_date :: "string option"
  ei_has_earnings_soon :: bool
  front_is_pre_earnings :: bool
  back_is_post_earnings :: bool
  both_post_earnings :: bool

subsection \<open>\<^verbatim>\<open>FFScannerService.verify_forward_factor\<close>\<close>

text \<open>
  The body of the \<^verbatim>\<open>try\<close> block and the \<^verbatim>\<open>except\<close> clause, which returns
  \<^verbatim>\<open>(0.0, False)\<close>.
\<close>

definition verify_forward_factor_body :: "Opportunity \<Rightarrow> py_error + real \<times> bool" where
  "verify_forward_factor_body opp =
     (if forward_vol opp = 0 then Inr (0, False)
      else
        (case py_truediv (front_iv opp) (forward_vol opp) of
           Inl e \<Rightarrow> Inl e
         | Inr q \<Rightarrow>
             (let calculated_ff = (q - 1) * 100;
                  matches = (\<bar>calculated_ff - forward_factor opp\<bar> < 2)
              in Inr (calculated_ff, matches))))"

definition verify_forward_factor :: "Opportunity \<Rightarrow> real \<times> bool" where
  "verify_forward_factor opp =
     (case verify_forward_factor_body opp of Inl e \<Rightarrow> (0, False) | Inr r \<Rightarrow> r)"

subsection \<open>\<^verbatim>\<open>calculate_probability\<close> and \<^verbatim>\<open>calculate_risk_reward\<close>\<close>

definition calculate_probability :: "Opportunity \<Rightarrow> real" where
  "calculate_probability opp =
     (let abs_ff = \<bar>forward_factor opp\<bar>;
          base_prob =
            (if abs_ff \<ge> 80 then 85
             else if abs_ff \<ge> 60 then 80
             else if abs_ff \<ge> 40 then 75
             else if abs_ff \<ge> 30 then 70
             else if abs_ff \<ge> 20 then 65
             else 60)
      in if has_earnings_soon opp then base_prob * 0.85 else base_prob)"

definition calculate_risk_reward :: "Opportunity \<Rightarrow> real" where
  "calculate_risk_reward opp =
     (let abs_ff = \<bar>forward_factor opp\<bar>
      in if abs_ff \<ge> 80 then 5
         else if abs_ff \<ge> 60 then 4
         else if abs_ff \<ge> 40 then 3.5
         else if abs_ff \<ge> 30 then 3
         else if abs_ff \<ge> 20 then 2.5
         else 2)"

subsection \<open>\<^verbatim>\<open>FFScannerService.apply_quality_filters\<close>\<close>

text \<open>
  A rejection reason is a formatted message; the model keeps which message it is and the
  values interpolated into it, not the rendering of the numbers.
\<close>

datatype reason =
    FF_too_low real
  | Front_DTE_too_short int
  | Front_DTE_too_long int
  | Front_IV_too_low real
  | Front_IV_too_high real
  | False_signal real real real
  | Calculation_mismatch real real
  | DTE_difference_too_small int

text \<open>
  The function starts from the empty list and appends; each of the following steps is one
  \<^verbatim>\<open>if\<close> statement of the source, taking the list so far and returning the list after it.
\<close>

definition filter1_magnitude :: "Opportunity \<Rightarrow> reason list \<Rightarrow> reason list" where
  "filter1_magnitude opp rs =
     (if \<bar>forward_factor opp\<bar> < MIN_FORWARD_FACTOR then rs @ [FF_too_low (forward_factor opp)]
      else rs)"

definition filter2_dte_short :: "Opportunity \<Rightarrow> reason list \<Rightarrow> reason list" where
  "filter2_dte_short opp rs =
     (if front_dte opp < MIN_DTE then rs @ [Front_DTE_too_short (front_dte opp)] else rs)"

definition filter2_dte_long :: "Opportunity \<Rightarrow> reason list \<Rightarrow> reason list" where
  "filter2_dte_long opp rs =
     (if front_dte opp > MAX_DTE then rs @ [Front_DTE_too_long (front_dte opp)] else rs)"

definition filter3_iv_low :: "Opportunity \<Rightarrow> reason list \<Rightarrow> reason list" where
  "filter3_iv_low opp rs =
     (if front_iv opp < MIN_IV then rs @ [Front_IV_too_low (front_iv opp)] else rs)"

definition filter3_iv_high :: "Opportunity \<Rightarrow> reason list \<Rightarrow> reason list" where
  "filter3_iv_high opp rs =
     (if front_iv opp > MAX_IV then rs @ [Front_IV_too_high (front_iv opp)] else rs)"

definition filter4_catalyst :: "Opportunity \<Rightarrow> reason list \<Rightarrow> reason list" where
  "filter4_catalyst opp rs =
     (if has_earnings_soon opp \<and> is_inverted opp then
        (if \<bar>forward_factor opp\<bar> < 40
         then rs @ [False_signal (front_iv opp) (back_iv opp) (forward_factor opp)]
         else rs)
      else rs)"

definition filter5_verify :: "Opportunity \<Rightarrow> reason list \<Rightarrow> reason list" where
  "filter5_verify opp rs =
     (case verify_forward_factor opp of
        (calculated_ff, matches) \<Rightarrow>
          (if \<not> matches then rs @ [Calculation_mismatch (forward_factor opp) calculated_ff]
           else rs))"

definition filter6_dte_diff :: "Opportunity \<Rightarrow> reason list \<Rightarrow> reason list" where
  "filter6_dte_diff opp rs =
     (let dte_diff = get_dte_diff opp
      in if dte_diff < 3 then rs @ [DTE_difference_too_small dte_diff] else rs)"

definition apply_quality_filters ::
  "Opportunity \<Rightarrow> EarningsInfo option \<Rightarrow> bool \<times> reason list" where
  "apply_quality_filters opp earnings_info =
     (let rejection_reasons =
            filter6_dte_diff opp
              (filter5_verify opp
                (filter4_catalyst opp
                  (filter3_iv_high opp
                    (filter3_iv_low opp
                      (filter2_dte_long opp
                        (filter2_dte_short opp
                          (filter1_magnitude opp [])))))));
          is_quality = (length rejection_reasons = 0)
      in (is_quality, rejection_reasons))"

subsection \<open>\<^verbatim>\<open>FFScannerService.calculate_rating\<close>\<close>

definition calculate_rating ::
  "Opportunity \<Rightarrow> EarningsInfo option \<Rightarrow> real \<Rightarrow> real \<Rightarrow> int" where
  "calculate_rating opp earnings_info probability risk_reward =
     (let rating0 = (5::int);
          abs_ff = \<bar>forward_factor opp\<bar>;
          rating1 =
            (if abs_ff \<ge> 80 then rating0 + 3
             else if abs_ff \<ge> 60 then rating0 + 2
             else if abs_ff \<ge> 40 then rating0 + 1
             else rating0);
          rating2 =
            (case earnings_info of
               None \<Rightarrow> rating1
             | Some ei \<Rightarrow>
                 (if ei_has_earnings_soon ei then
                    (if front_is_pre_earnings ei \<and> back_is_post_earnings ei then rating1 + 1
                     else rating1)
                  else rating1));
          rating3 = (if 20 \<le> front_dte opp \<and> front_dte opp \<le> 60 then rating2 + 1 else rating2);
          rating4 = (if is_inverted opp then rating3 - 1 else rating3);
          rating5 = (if probability \<ge> 80 then rating4 + 1 else rating4);
          rating6 = (if risk_reward \<ge> 4 then rating5 + 1 else rating5)
      in max 0 (min 10 rating6))"

subsection \<open>\<^verbatim>\<open>ForwardFactorScanner.group_by_expiration\<close>\<close>

text \<open>
  One element of \<^verbatim>\<open>options_data\<close> is a JSON object. The model keeps the keys the function
  reads, each optional: \<open>greeks_delta\<close> is \<^verbatim>\<open>option['greeks'].get('delta')\<close> when the object
  has \<^verbatim>\<open>'greeks'\<close> (absent otherwise), \<open>details\<close> is \<^verbatim>\<open>option['details']\<close> with its two keys,
  \<open>implied_volatility\<close> is \<^verbatim>\<open>option.get('implied_volatility')\<close>. A key that is present holds
  a number (a string for the expiration date). Reading an absent key raises \<^verbatim>\<open>KeyError\<close>,
  which both loops answer with \<^verbatim>\<open>continue\<close>.

  \<^verbatim>\<open>datetime.strptime(s, '%Y-%m-%d').date()\<close> is a parameter \<open>strptime\<close> that yields the day
  number of a well-formed date string and \<open>None\<close> where the library raises; the date of
  \<^verbatim>\<open>datetime.now()\<close> is the parameter \<open>today\<close>.
\<close>

record option_details =
  strike_price :: "real option"
  expiration_date :: "string option"

record option_contract =
  greeks_delta :: "real option"
  details :: "option_details option"
  implied_volatility :: "real option"

definition parse_expiration_date :: "(string \<Rightarrow> date option) \<Rightarrow> string \<Rightarrow> date option" where
  "parse_expiration_date strptime exp_date_str = strptime exp_date_str"

definition calculate_dte :: "date \<Rightarrow> date \<Rightarrow> int" where
  "calculate_dte today exp_date = exp_date - today"

text \<open>The first loop: the strike of the first contract whose delta is near 0.5.\<close>

fun estimate_stock_price :: "option_contract list \<Rightarrow> real option" where
  "estimate_stock_price [] = None"
| "estimate_stock_price (opt # rest) =
     (case greeks_delta opt of
        None \<Rightarrow> estimate_stock_price rest
      | Some d \<Rightarrow>
          (if d = 0 then estimate_stock_price rest
           else if 0.45 \<le> \<bar>d\<bar> \<and> \<bar>d\<bar> \<le> 0.55 then
             (case details opt of
                None \<Rightarrow> estimate_stock_price rest
              | Some dt \<Rightarrow>
                  (case strike_price dt of
                     None \<Rightarrow> estimate_stock_price rest
                   | Some strike \<Rightarrow> Some strike))
           else estimate_stock_price rest))"

text \<open>
  One iteration of the second loop: \<open>None\<close> for every \<^verbatim>\<open>continue\<close>, otherwise the key and the
  value appended to \<^verbatim>\<open>expirations\<close>.
\<close>

definition contract_entry ::
  "(string \<Rightarrow> date option) \<Rightarrow> real \<Rightarrow> option_contract \<Rightarrow> (date \<times> real) option" where
  "contract_entry strptime stock_price opt =
     (case details opt of
        None \<Rightarrow> None
      | Some dt \<Rightarrow>
          (case expiration_date dt of
             None \<Rightarrow> None
           | Some exp_date_str \<Rightarrow>
               (case parse_expiration_date strptime exp_date_str of
                  None \<Rightarrow> None
                | Some exp_date \<Rightarrow>
                    (case strike_price dt of
                       None \<Rightarrow> None
                     | Some strike \<Rightarrow>
                         (if \<bar>strike - stock_price\<bar> / stock_price > 0.10 then None
                          else
                            (case implied_volatility opt of
                               None \<Rightarrow> None
                             | Some v \<Rightarrow>
                                 (if v \<le> 0 \<or> v > 500 then None
                                  else Some (exp_date, v))))))))"

text \<open>\<^verbatim>\<open>expirations[exp_date].append(iv)\<close> on a \<^verbatim>\<open>defaultdict(list)\<close>, in insertion order.\<close>

fun append_iv :: "date \<Rightarrow> real \<Rightarrow> (date \<times> real list) list \<Rightarrow> (date \<times> real list) list" where
  "append_iv k v [] = [(k, [v])]"
| "append_iv k v ((k', vs) # rest) =
     (if k' = k then (k', vs @ [v]) # rest else (k', vs) # append_iv k v rest)"

fun collect_ivs ::
  "(string \<Rightarrow> date option) \<Rightarrow> real \<Rightarrow> option_contract list \<Rightarrow>
   (date \<times> real list) list \<Rightarrow> (date \<times> real list) list" where
  "collect_ivs strptime stock_price [] expirations = expirations"
| "collect_ivs strptime stock_price (opt # rest) expirations =
     (case contract_entry strptime stock_price opt of
        None \<Rightarrow> collect_ivs strptime stock_price rest expirations
      | Some (exp_date, v) \<Rightarrow>
          collect_ivs strptime stock_price rest (append_iv exp_date v expirations))"

text \<open>The third loop: one term point per expiration with at least three values.\<close>

fun average_ivs :: "date \<Rightarrow> (date \<times> real list) list \<Rightarrow> (date \<times> term_point) list" where
  "average_ivs today [] = []"
| "average_ivs today ((exp_date, iv_list) # rest) =
     (if length iv_list \<ge> 3 then
        (let avg_iv = sum_list iv_list / real (length iv_list);
             d = calculate_dte today exp_date
         in if d \<noteq> 0 \<and> d > 0
            then (exp_date, \<lparr>iv = avg_iv, dte = d, count = length iv_list\<rparr>) # average_ivs today rest
            else average_ivs today rest)
      else average_ivs today rest)"

definition group_by_expiration ::
  "(string \<Rightarrow> date option) \<Rightarrow> date \<Rightarrow> option_contract list \<Rightarrow> (date \<times> term_point) list" where
  "group_by_expiration strptime today options_data =
     (case estimate_stock_price options_data of
        None \<Rightarrow> []
      | Some stock_price \<Rightarrow>
          (if stock_price = 0 then []
           else average_ivs today (collect_ivs strptime stock_price options_data [])))"

subsection \<open>\<^verbatim>\<open>FFScannerService.get_earnings_info\<close>\<close>

text \<open>
  The Polygon client is external. \<open>polygon_client\<close> is \<open>None\<close> when no API key is set;
  otherwise it maps a ticker to what \<^verbatim>\<open>get_ticker_details\<close> does: it raises, or it returns
  an object whose \<^verbatim>\<open>results.next_earnings_date\<close> is a string or is not there.
  \<^verbatim>\<open>datetime.strptime(s, '%Y-%m-%d')\<close> is the parameter \<open>strptime\<close> again, \<open>None\<close> standing for
  the \<^verbatim>\<open>ValueError\<close> of a malformed string; \<^verbatim>\<open>datetime.now()\<close> is \<open>now\<close>, in days and
  fractions of a day on the same scale, so that \<^verbatim>\<open>(earnings_dt - datetime.now()).days\<close> is
  the floor of the difference.
\<close>

datatype ticker_details = Client_raises | Next_earnings_date "string option"

definition py_strptime :: "(string \<Rightarrow> date option) \<Rightarrow> string \<Rightarrow> py_error + date" where
  "py_strptime strptime s = (case strptime s of None \<Rightarrow> Inl ValueError | Some d \<Rightarrow> Inr d)"

definition get_earnings_info_body ::
  "(string \<Rightarrow> date option) \<Rightarrow> real \<Rightarrow> (string \<Rightarrow> ticker_details) \<Rightarrow>
   string \<Rightarrow> string \<Rightarrow> string \<Rightarrow> py_error + EarningsInfo option" where
  "get_earnings_info_body strptime now client tk front back =
     (case client tk of
        Client_raises \<Rightarrow> Inl ValueError
      | Next_earnings_date ed \<Rightarrow>
          (if ed = None \<or> ed = Some [] then
             Inr (Some \<lparr>ei_ticker = tk, earnings_date = None, ei_has_earnings_soon = False,
                        front_is_pre_earnings = False, back_is_post_earnings = False,
                        both_post_earnings = False\<rparr>)
           else
             (case py_strptime strptime (the ed) of
                Inl e \<Rightarrow> Inl e
              | Inr earnings_dt \<Rightarrow>
                  (case py_strptime strptime front of
                     Inl e \<Rightarrow> Inl e
                   | Inr front_dt \<Rightarrow>
                       (case py_strptime strptime back of
                          Inl e \<Rightarrow> Inl e
                        | Inr back_dt \<Rightarrow>
                            (let front_is_pre = (front_dt < earnings_dt);
                                 back_is_post = (back_dt > earnings_dt);
                                 both_post = (front_dt > earnings_dt \<and> back_dt > earnings_dt);
                                 soon = (\<bar>\<lfloor>real_of_int earnings_dt - now\<rfloor>\<bar> < 60)
                             in Inr (Some \<lparr>ei_ticker = tk, earnings_date = ed,
                                           ei_has_earnings_soon = soon,
                                           front_is_pre_earnings = front_is_pre,
                                           back_is_post_earnings = back_is_post,
                                           both_post_earnings = both_post\<rparr>)))))))"

definition get_earnings_info ::
  "(string \<Rightarrow> date option) \<Rightarrow> real \<Rightarrow> (string \<Rightarrow> ticker_details) option \<Rightarrow>
   string \<Rightarrow> string \<Rightarrow> string \<Rightarrow> EarningsInfo option" where
  "get_earnings_info strptime now polygon_client tk front back =
     (case polygon_client of
        None \<Rightarrow> None
      | Some client \<Rightarrow>
          (case get_earnings_info_body strptime now client tk front back of
             Inl e \<Rightarrow> None
           | Inr r \<Rightarrow> r))"

subsection \<open>\<^verbatim>\<open>YahooEarningsCalendar.get_earnings_info\<close>\<close>

text \<open>
  \<^verbatim>\<open>get_earnings_date\<close> scrapes a web page and catches every exception; its outcome for a
  ticker, a date string or \<^verbatim>\<open>None\<close>, is the parameter \<open>get_earnings_date\<close>. The returned
  dictionary has four fixed keys.
\<close>

record yahoo_info =
  y_earnings_date :: "string option"
  y_front_is_pre_earnings :: bool
  y_back_is_post_earnings :: bool
  y_both_post_earnings :: bool

definition yahoo_parse_dates ::
  "(string \<Rightarrow> date option) \<Rightarrow> string \<Rightarrow> string \<Rightarrow> string \<Rightarrow> py_error + date \<times> date \<times> date" where
  "yahoo_parse_dates strptime ed front back =
     (case py_strptime strptime ed of
        Inl e \<Rightarrow> Inl e
      | Inr earnings_dt \<Rightarrow>
          (case py_strptime strptime front of
             Inl e \<Rightarrow> Inl e
           | Inr front_dt \<Rightarrow>
               (case py_strptime strptime back of
                  Inl e \<Rightarrow> Inl e
                | Inr back_dt \<Rightarrow> Inr (earnings_dt, front_dt, back_dt))))"

definition yahoo_get_earnings_info ::
  "(string \<Rightarrow> date option) \<Rightarrow> (string \<Rightarrow> string option) \<Rightarrow>
   string \<Rightarrow> string \<Rightarrow> string \<Rightarrow> yahoo_info" where
  "yahoo_get_earnings_info strptime get_earnings_date tk front back =
     (let ed = get_earnings_date tk
      in if ed = None \<or> ed = Some [] then
           \<lparr>y_earnings_date = None, y_front_is_pre_earnings = False,
            y_back_is_post_earnings = False, y_both_post_earnings = False\<rparr>
         else
           (case yahoo_parse_dates strptime (the ed) front back of
              Inl e \<Rightarrow>
                \<lparr>y_earnings_date = ed, y_front_is_pre_earnings = False,
                 y_back_is_post_earnings = False, y_both_post_earnings = False\<rparr>
            | Inr (earnings_dt, front_dt, back_dt) \<Rightarrow>
                \<lparr>y_earnings_date = ed,
                 y_front_is_pre_earnings = (front_dt < earnings_dt),
                 y_back_is_post_earnings = (back_dt > earnings_dt),
                 y_both_post_earnings = (front_dt > earnings_dt \<and> back_dt > earnings_dt)\<rparr>))"

subsection \<open>The formulas of the specification\<close>

text \<open>
  These two definitions follow the wording of the specification (section 4.2), not the
  code; the theorems below compare the code with them.
\<close>

definition spec_forward_variance :: "real \<Rightarrow> int \<Rightarrow> real \<Rightarrow> int \<Rightarrow> real" where
  "spec_forward_variance fiv fdte biv bdte =
     (let T1 = real_of_int fdte / 365;
          T2 = real_of_int bdte / 365;
          sigma1 = fiv / 100;
          sigma2 = biv / 100
      in (sigma2\<^sup>2 * T2 - sigma1\<^sup>2 * T1) / (T2 - T1))"

definition spec_forward_vol :: "real \<Rightarrow> int \<Rightarrow> real \<Rightarrow> int \<Rightarrow> real" where
  "spec_forward_vol fiv fdte biv bdte = sqrt (spec_forward_variance fiv fdte biv bdte) * 100"

definition spec_forward_factor :: "real \<Rightarrow> int \<Rightarrow> real \<Rightarrow> int \<Rightarrow> real" where
  "spec_forward_factor fiv fdte biv bdte =
     ((fiv / 100 - sqrt (spec_forward_variance fiv fdte biv bdte))
        / sqrt (spec_forward_variance fiv fdte biv bdte)) * 100"

subsection \<open>The gates of the quality filter\<close>

text \<open>
  The eight \<^verbatim>\<open>if\<close> statements of \<^verbatim>\<open>apply_quality_filters\<close>, in source order, the condition
  under which each appends, and the gate each message belongs to.
\<close>

datatype gate =
    Magnitude | Front_DTE_floor | Front_DTE_ceiling | IV_floor | IV_ceiling
  | Earnings_conflict | Calculation_consistency | Spread_width

definition all_gates :: "gate list" where
  "all_gates = [Magnitude, Front_DTE_floor, Front_DTE_ceiling, IV_floor, IV_ceiling,
                Earnings_conflict, Calculation_consistency, Spread_width]"

fun gate_fails :: "gate \<Rightarrow> Opportunity \<Rightarrow> bool" where
  "gate_fails Magnitude opp = (\<bar>forward_factor opp\<bar> < MIN_FORWARD_FACTOR)"
| "gate_fails Front_DTE_floor opp = (front_dte opp < MIN_DTE)"
| "gate_fails Front_DTE_ceiling opp = (front_dte opp > MAX_DTE)"
| "gate_fails IV_floor opp = (front_iv opp < MIN_IV)"
| "gate_fails IV_ceiling opp = (front_iv opp > MAX_IV)"
| "gate_fails Earnings_conflict opp =
     (has_earnings_soon opp \<and> is_inverted opp \<and> \<bar>forward_factor opp\<bar> < 40)"
| "gate_fails Calculation_consistency opp = (\<not> snd (verify_forward_factor opp))"
| "gate_fails Spread_width opp = (get_dte_diff opp < 3)"

fun gate_of :: "reason \<Rightarrow> gate" where
  "gate_of (FF_too_low _) = Magnitude"
| "gate_of (Front_DTE_too_short _) = Front_DTE_floor"
| "gate_of (Front_DTE_too_long _) = Front_DTE_ceiling"
| "gate_of (Front_IV_too_low _) = IV_floor"
| "gate_of (Front_IV_too_high _) = IV_ceiling"
| "gate_of (False_signal _ _ _) = Earnings_conflict"
| "gate_of (Calculation_mismatch _ _) = Calculation_consistency"
| "gate_of (DTE_difference_too_small _) = Spread_width"

subsection \<open>Auxiliary functions used in the statements and proofs\<close>

text \<open>
  What one iteration of the loop in \<^verbatim>\<open>find_best_pairs\<close> appends for the adjacent pair
  \<open>(f, b)\<close>: nothing when the calculator reports an error, one dictionary otherwise.
\<close>

definition emit_pair ::
  "(real \<Rightarrow> real) \<Rightarrow> (real \<Rightarrow> real) \<Rightarrow> date \<times> term_point \<Rightarrow> date \<times> term_point \<Rightarrow> pair list" where
  "emit_pair rnd pow_half f b =
     (case calculate_forward_factor_fl rnd pow_half
             (iv (snd f)) (dte (snd f)) (iv (snd b)) (dte (snd b)) of
        (fwd_vol, ff, error) \<Rightarrow>
          (if truthy_str error then []
           else [\<lparr>pair.front_date = fst f, front_iv = iv (snd f), front_dte = dte (snd f),
                   back_date = fst b, back_iv = iv (snd b), back_dte = dte (snd b),
                   forward_vol = fwd_vol, forward_factor = ff\<rparr>]))"

text \<open>The message a gate of the quality filter appends when it fails.\<close>

definition gate_reason :: "gate \<Rightarrow> Opportunity \<Rightarrow> reason" where
  "gate_reason g opp =
     (case g of
        Magnitude \<Rightarrow> FF_too_low (forward_factor opp)
      | Front_DTE_floor \<Rightarrow> Front_DTE_too_short (front_dte opp)
      | Front_DTE_ceiling \<Rightarrow> Front_DTE_too_long (front_dte opp)
      | IV_floor \<Rightarrow> Front_IV_too_low (front_iv opp)
      | IV_ceiling \<Rightarrow> Front_IV_too_high (front_iv opp)
      | Earnings_conflict \<Rightarrow> False_signal (front_iv opp) (back_iv opp) (forward_factor opp)
      | Calculation_consistency \<Rightarrow>
          Calculation_mismatch (forward_factor opp) (fst (verify_forward_factor opp))
      | Spread_width \<Rightarrow> DTE_difference_too_small (get_dte_diff opp))"

text \<open>The summands of the rating.\<close>

definition ff_bonus :: "real \<Rightarrow> int" where
  "ff_bonus a = (if a \<ge> 80 then 3 else if a \<ge> 60 then 2 else if a \<ge> 40 then 1 else 0)"

definition catalyst_bonus :: "EarningsInfo option \<Rightarrow> int" where
  "catalyst_bonus ei =
     (case ei of
        None \<Rightarrow> 0
      | Some e \<Rightarrow>
          if ei_has_earnings_soon e \<and> front_is_pre_earnings e \<and> back_is_post_earnings e
          then 1 else 0)"

definition flag :: "bool \<Rightarrow> int" where
  "flag c = (if c then 1 else 0)"

text \<open>
  The implied volatilities that the second loop of \<^verbatim>\<open>group_by_expiration\<close> keeps for the
  expiration \<open>d\<close>, in the order of \<^verbatim>\<open>options_data\<close>.
\<close>

definition surviving_ivs ::
  "(string \<Rightarrow> date option) \<Rightarrow> real \<Rightarrow> option_contract list \<Rightarrow> date \<Rightarrow> real list" where
  "surviving_ivs strptime stock_price options_data d =
     map snd (filter (\<lambda>e. fst e = d)
       (List.map_filter (contract_entry strptime stock_price) options_data))"

text \<open>The record \<^verbatim>\<open>get_earnings_info\<close> returns when the provider has no earnings date.\<close>

definition no_catalyst :: "string \<Rightarrow> EarningsInfo" where
  "no_catalyst tk =
     \<lparr>ei_ticker = tk, earnings_date = None, ei_has_earnings_soon = False,
      front_is_pre_earnings = False, back_is_post_earnings = False,
      both_post_earnings = False\<rparr>"

subsection \<open>Concrete inputs\<close>

definition example_opp :: Opportunity where
  "example_opp =
     \<lparr>ticker = ''PLTR'', forward_factor = 600, signal = ''SELL'',
      front_date = ''2025-03-21'', front_dte = 30, front_iv = 70,
      back_date = ''2025-04-18'', back_dte = 60, back_iv = 50,
      forward_vol = 10, scan_id = 1, opportunity_id = 1, has_earnings_soon = False\<rparr>"

definition earnings_opp :: "real \<Rightarrow> Opportunity" where
  "earnings_opp ff =
     \<lparr>ticker = ''SOFI'', forward_factor = ff, signal = ''SELL'',
      front_date = ''2025-03-21'', front_dte = 30, front_iv = 40,
      back_date = ''2025-04-18'', back_dte = 60, back_iv = 30,
      forward_vol = 20, scan_id = 1, opportunity_id = 2, has_earnings_soon = True\<rparr>"

definition stale_opp :: Opportunity where
  "stale_opp =
     \<lparr>ticker = ''HOOD'', forward_factor = 100, signal = ''SELL'',
      front_date = ''2025-03-21'', front_dte = 30, front_iv = 20,
      back_date = ''2025-04-18'', back_dte = 60, back_iv = 20,
      forward_vol = 10, scan_id = 1, opportunity_id = 3, has_earnings_soon = False\<rparr>"

definition example_strptime :: "string \<Rightarrow> date option" where
  "example_strptime s =
     (if s = ''2025-02-20'' then Some 20139
      else if s = ''2025-03-21'' then Some 20168
      else if s = ''2025-04-18'' then Some 20196
      else None)"

definition contract :: "real option \<Rightarrow> real \<Rightarrow> string \<Rightarrow> real \<Rightarrow> option_contract" where
  "contract delta strike exp_str v =
     \<lparr>greeks_delta = delta,
      details = Some \<lparr>strike_price = Some strike, expiration_date = Some exp_str\<rparr>,
      implied_volatility = Some v\<rparr>"

definition example_chain :: "option_contract list" where
  "example_chain =
     [contract (Some 0.5) 100 ''2025-03-21'' 30,
      contract None 95 ''2025-03-21'' 32,
      contract None 105 ''2025-04-18'' 40,
      contract None 105 ''2025-03-21'' 34,
      contract None 100 ''2025-04-18'' 42,
      contract None 150 ''2025-04-18'' 44]"

text \<open>
  A ladder of six expirations, given out of order. Sorted by DTE, its second adjacent pair
  has forward variance zero and its fourth a negative one; on the other three the
  calculator returns forward volatilities 40, 20 and 10 with forward factor 0. Doubles
  return the same triples on this ladder as exact arithmetic (\<open>no_rounding\<close>).
\<close>

definition no_rounding :: "real \<Rightarrow> real" where
  "no_rounding x = x"

definition example_ladder :: "(date \<times> term_point) list" where
  "example_ladder =
     [(20178, \<lparr>iv = 20, dte = 40, count = 3\<rparr>),
      (20143, \<lparr>iv = 40, dte = 5, count = 3\<rparr>),
      (20318, \<lparr>iv = 10, dte = 180, count = 4\<rparr>),
      (20148, \<lparr>iv = 40, dte = 10, count = 5\<rparr>),
      (20228, \<lparr>iv = 10, dte = 90, count = 3\<rparr>),
      (20218, \<lparr>iv = 20, dte = 80, count = 3\<rparr>)]"

definition example_client :: "string option \<Rightarrow> string \<Rightarrow> ticker_details" where
  "example_client ed tk = Next_earnings_date ed"

definition example_lookup :: "string option \<Rightarrow> string \<Rightarrow> string option" where
  "example_lookup ed tk = ed"

section \<open>The Forward Factor calculator\<close>

lemma calc_positive:
  assumes "fd < bd" and "spec_forward_variance fi fd bi bd > 0"
  shows "calculate_forward_factor fi fd bi bd =
     (Some (sqrt (spec_forward_variance fi fd bi bd) * 100),
      Some (((fi / 100 - sqrt (spec_forward_variance fi fd bi bd))
               / sqrt (spec_forward_variance fi fd bi bd)) * 100), None)"
proof -
  let ?v = "spec_forward_variance fi fd bi bd"
  have d: "real_of_int bd / 365 - real_of_int fd / 365 \<noteq> 0" using assms(1) by simp
  have s: "sqrt ?v \<noteq> 0" using assms(2) by simp
  have n: "\<not> ?v < 0" using assms(2) by simp
  show ?thesis
    using d s n
    by (simp add: calculate_forward_factor_def calculate_forward_factor_body_def
        py_truediv_def Let_def spec_forward_variance_def)
qed

lemma calc_negative:
  assumes "fd < bd" and "spec_forward_variance fi fd bi bd < 0"
  shows "calculate_forward_factor fi fd bi bd = (None, None, Some ''Negative forward variance'')"
proof -
  have d: "real_of_int bd / 365 - real_of_int fd / 365 \<noteq> 0" using assms(1) by simp
  show ?thesis
    using d assms(2)
    by (simp add: calculate_forward_factor_def calculate_forward_factor_body_def
        py_truediv_def Let_def spec_forward_variance_def)
qed

lemma calc_zero:
  assumes "fd < bd" and "spec_forward_variance fi fd bi bd = 0"
  shows "calculate_forward_factor fi fd bi bd = (None, None, Some (py_str ZeroDivisionError))"
proof -
  have d: "real_of_int bd / 365 - real_of_int fd / 365 \<noteq> 0" using assms(1) by simp
  show ?thesis
    using d assms(2)
    by (simp add: calculate_forward_factor_def calculate_forward_factor_body_def
        py_truediv_def Let_def spec_forward_variance_def)
qed

lemma variance_70_30_50_60: "spec_forward_variance 70 30 50 60 = 1 / 100"
  by (simp add: spec_forward_variance_def Let_def power2_eq_square)

lemma variance_40_10_20_40: "spec_forward_variance 40 10 20 40 = 0"
  by (simp add: spec_forward_variance_def Let_def power2_eq_square)

lemma variance_20_30_20_60: "spec_forward_variance 20 30 20 60 = 1 / 25"
  by (simp add: spec_forward_variance_def Let_def power2_eq_square)

lemma sqrt_hundredth: "sqrt (1 / 100) = 1 / 10"
  by (rule real_sqrt_unique) (simp_all add: power2_eq_square)

lemma sqrt_twentyfifth: "sqrt (1 / 25) = 1 / 5"
  by (rule real_sqrt_unique) (simp_all add: power2_eq_square)

lemma calc_70_30_50_60: "calculate_forward_factor 70 30 50 60 = (Some 10, Some 600, None)"
proof -
  have "(30::int) < 60" and "spec_forward_variance 70 30 50 60 > 0"
    by (simp_all add: variance_70_30_50_60)
  from calc_positive [OF this] show ?thesis
    by (simp add: variance_70_30_50_60 sqrt_hundredth)
qed

lemma calc_20_30_20_60: "calculate_forward_factor 20 30 20 60 = (Some 20, Some 0, None)"
proof -
  have "(30::int) < 60" and "spec_forward_variance 20 30 20 60 > 0"
    by (simp_all add: variance_20_30_20_60)
  from calc_positive [OF this] show ?thesis
    by (simp add: variance_20_30_20_60 sqrt_twentyfifth)
qed

text \<open>
  Claim C1. For \<open>back_dte > front_dte > 0\<close> and a positive forward variance (the formula of
  the specification), \<^verbatim>\<open>calculate_forward_factor\<close> returns
  \<open>forward_vol = sqrt forward_variance * 100\<close> and
  \<open>forward_factor = ((sigma1 - sqrt forward_variance) / sqrt forward_variance) * 100\<close>, with no
  error text.
\<close>

theorem calculate_forward_factor_formula:
  assumes "0 < fdte" and "fdte < bdte"
      and "spec_forward_variance fiv fdte biv bdte > 0"
  shows "calculate_forward_factor fiv fdte biv bdte =
           (Some (spec_forward_vol fiv fdte biv bdte),
            Some (spec_forward_factor fiv fdte biv bdte), None)
       \<and> spec_forward_vol fiv fdte biv bdte
           = sqrt (spec_forward_variance fiv fdte biv bdte) * 100
       \<and> spec_forward_factor fiv fdte biv bdte
           = ((fiv / 100 - sqrt (spec_forward_variance fiv fdte biv bdte))
                / sqrt (spec_forward_variance fiv fdte biv bdte)) * 100"
  using calc_positive [OF assms(2,3)]
  by (simp add: spec_forward_vol_def spec_forward_factor_def)

theorem calculate_forward_factor_formula_witness:
  "(0::int) < 30 \<and> (30::int) < 60 \<and> spec_forward_variance 70 30 50 60 > 0
   \<and> calculate_forward_factor 70 30 50 60 = (Some 10, Some 600, None)"
proof -
  have h: "(0::int) < 30" "(30::int) < 60" "spec_forward_variance 70 30 50 60 > 0"
    by (simp_all add: variance_70_30_50_60)
  from calculate_forward_factor_formula [OF h] show ?thesis
    using h by (simp add: variance_70_30_50_60 sqrt_hundredth)
qed

section \<open>The pair selector\<close>

lemma calculate_forward_factor_fl_cases:
  "calculate_forward_factor_fl rnd pow_half fi fd bi bd =
     (case computed_forward_var rnd fi fd bi bd of
        Inl e \<Rightarrow> (None, None, Some (py_str e))
      | Inr v \<Rightarrow>
          if v < 0 then (None, None, Some ''Negative forward variance'')
          else if pow_half v = 0 then (None, None, Some (py_str ZeroDivisionError))
          else (Some (rnd (pow_half v * 100)),
                Some (rnd (rnd ((rnd (rnd (fi / 100) - pow_half v)) / pow_half v) * 100)),
                None))"
  by (simp add: calculate_forward_factor_fl_def calculate_forward_factor_fl_body_def
      computed_forward_var_def py_truediv_def Let_def)

lemma exact_instance:
  "calculate_forward_factor_fl no_rounding sqrt fi fd bi bd = calculate_forward_factor fi fd bi bd"
  by (simp add: calculate_forward_factor_fl_def calculate_forward_factor_fl_body_def
      calculate_forward_factor_def calculate_forward_factor_body_def py_truediv_def Let_def
      no_rounding_def)

lemma variance_40_5_40_10: "spec_forward_variance 40 5 40 10 = 4 / 25"
  by (simp add: spec_forward_variance_def Let_def power2_eq_square)

lemma variance_20_40_20_80: "spec_forward_variance 20 40 20 80 = 1 / 25"
  by (simp add: spec_forward_variance_def Let_def power2_eq_square)

lemma variance_20_80_10_90: "spec_forward_variance 20 80 10 90 = - (23 / 100)"
  by (simp add: spec_forward_variance_def Let_def power2_eq_square)

lemma variance_10_90_10_180: "spec_forward_variance 10 90 10 180 = 1 / 100"
  by (simp add: spec_forward_variance_def Let_def power2_eq_square)

lemma sqrt_four_twentyfifths: "sqrt (4 / 25) = 2 / 5"
  by (rule real_sqrt_unique) (simp_all add: power2_eq_square)

lemma calc_40_5_40_10: "calculate_forward_factor 40 5 40 10 = (Some 40, Some 0, None)"
proof -
  have "(5::int) < 10" and "spec_forward_variance 40 5 40 10 > 0"
    by (simp_all add: variance_40_5_40_10)
  from calc_positive [OF this] show ?thesis
    by (simp add: variance_40_5_40_10 sqrt_four_twentyfifths)
qed

lemma calc_20_40_20_80: "calculate_forward_factor 20 40 20 80 = (Some 20, Some 0, None)"
proof -
  have "(40::int) < 80" and "spec_forward_variance 20 40 20 80 > 0"
    by (simp_all add: variance_20_40_20_80)
  from calc_positive [OF this] show ?thesis
    by (simp add: variance_20_40_20_80 sqrt_twentyfifth)
qed

lemma calc_10_90_10_180: "calculate_forward_factor 10 90 10 180 = (Some 10, Some 0, None)"
proof -
  have "(90::int) < 180" and "spec_forward_variance 10 90 10 180 > 0"
    by (simp_all add: variance_10_90_10_180)
  from calc_positive [OF this] show ?thesis
    by (simp add: variance_10_90_10_180 sqrt_hundredth)
qed

lemma calc_40_10_20_40:
  "calculate_forward_factor 40 10 20 40 = (None, None, Some ''float division by zero'')"
  using calc_zero [of 10 40 40 20] by (simp add: variance_40_10_20_40 py_str_def)

lemma calc_20_80_10_90:
  "calculate_forward_factor 20 80 10 90 = (None, None, Some ''Negative forward variance'')"
  using calc_negative [of 80 90 20 10] by (simp add: variance_20_80_10_90)

lemma fl_nonpositive:
  assumes "computed_forward_var rnd fi fd bi bd = Inr v" and "v \<le> 0" and "pow_half 0 = 0"
  shows "\<exists>msg. msg \<noteq> [] \<and>
           calculate_forward_factor_fl rnd pow_half fi fd bi bd = (None, None, Some msg)"
proof (cases "v < 0")
  case True
  with assms(1) show ?thesis by (simp add: calculate_forward_factor_fl_cases)
next
  case False
  with assms(2) have "v = 0" by simp
  with assms(1,3) show ?thesis by (simp add: calculate_forward_factor_fl_cases py_str_def)
qed

lemma pairs_loop_Cons2:
  "pairs_loop rnd pw (f # b # rest) = emit_pair rnd pw f b @ pairs_loop rnd pw (b # rest)"
  by (simp add: emit_pair_def split: prod.splits)

lemma pairs_loop_concat:
  "pairs_loop rnd pw xs = concat (map (\<lambda>(f, b). emit_pair rnd pw f b) (zip xs (tl xs)))"
proof (induction xs)
  case Nil
  show ?case by simp
next
  case (Cons a xs)
  show ?case
  proof (cases xs)
    case Nil
    then show ?thesis by simp
  next
    case (Cons b rest)
    with Cons.IH show ?thesis by (simp add: pairs_loop_Cons2 del: pairs_loop.simps(1))
  qed
qed

lemma distinct_keys_sorted:
  "distinct (map fst xs) \<Longrightarrow> distinct (map fst (sort_key k xs))"
  by (simp add: distinct_map)

lemma adjacent_unique:
  assumes d: "distinct (map fst xs)" and xs: "xs = pre @ f # b # post"
      and m: "(f', b') \<in> set (zip xs (tl xs))" and k: "fst f' = fst f"
  shows "f' = f \<and> b' = b"
proof -
  from m obtain i where i: "xs ! i = f'" "tl xs ! i = b'" "i < length xs" "i < length (tl xs)"
    by (auto simp add: in_set_zip)
  have n: "length pre < length xs" using xs by simp
  have fp: "xs ! length pre = f" using xs by simp
  have "map fst xs ! i = map fst xs ! length pre" using i(1,3) n fp k by simp
  moreover have "i < length (map fst xs)" "length pre < length (map fst xs)"
    using i(3) n by simp_all
  ultimately have e: "i = length pre"
    using nth_eq_iff_index_eq [OF d, of i "length pre"] by blast
  have "tl xs ! i = xs ! Suc i" using i(4) by (simp add: nth_tl)
  also have "\<dots> = b" unfolding e xs by (simp add: nth_append)
  finally have "b' = b" using i(2) by simp
  moreover have "f' = f" using i(1) e fp by simp
  ultimately show ?thesis by simp
qed

text \<open>
  Claim C2. For \<open>back_dte > front_dte > 0\<close>, when the computed forward variance of the
  adjacent pair \<open>(f, b)\<close> of the sorted ladder is negative or exactly zero,
  \<^verbatim>\<open>calculate_forward_factor\<close> returns \<^verbatim>\<open>(None, None, msg)\<close> with a non-empty error text: it
  does not raise, the division by zero is caught (\<^verbatim>\<open>0.0 ** 0.5\<close> is \<^verbatim>\<open>0.0\<close>). The list
  \<^verbatim>\<open>find_best_pairs\<close> returns then has no entry with the two dates of that pair, and it
  still has the entry of every adjacent pair of the ladder, before or after, for which the
  calculator reports no error: it is, in ladder order, exactly the entries of the adjacent
  pairs without error. Expiration dates are dictionary keys, so they are distinct.
\<close>

theorem nonpositive_variance_skipped:
  assumes "0 < dte (snd f)" and "dte (snd f) < dte (snd b)"
      and "computed_forward_var rnd (iv (snd f)) (dte (snd f)) (iv (snd b)) (dte (snd b)) = Inr v"
      and "v \<le> 0" and "pow_half 0 = 0"
      and "distinct (map fst expirations)"
      and "sort_key (\<lambda>x. dte (snd x)) expirations = pre @ f # b # post"
  shows "(\<exists>msg. msg \<noteq> [] \<and>
            calculate_forward_factor_fl rnd pow_half
              (iv (snd f)) (dte (snd f)) (iv (snd b)) (dte (snd b)) = (None, None, Some msg))
       \<and> (\<forall>p \<in> set (find_best_pairs rnd pow_half expirations).
             \<not> (pair.front_date p = fst f \<and> pair.back_date p = fst b))
       \<and> (\<forall>(f', b') \<in> set (zip (pre @ f # b # post) (tl (pre @ f # b # post))).
             \<forall>vol ff err.
               calculate_forward_factor_fl rnd pow_half
                 (iv (snd f')) (dte (snd f')) (iv (snd b')) (dte (snd b')) = (vol, ff, err)
               \<and> \<not> truthy_str err \<longrightarrow>
               \<lparr>pair.front_date = fst f', front_iv = iv (snd f'), front_dte = dte (snd f'),
                back_date = fst b', back_iv = iv (snd b'), back_dte = dte (snd b'),
                forward_vol = vol, forward_factor = ff\<rparr>
                 \<in> set (find_best_pairs rnd pow_half expirations))
       \<and> find_best_pairs rnd pow_half expirations =
           concat (map (\<lambda>(f', b').
                     case calculate_forward_factor_fl rnd pow_half
                            (iv (snd f')) (dte (snd f')) (iv (snd b')) (dte (snd b')) of
                       (vol, ff, err) \<Rightarrow>
                         if truthy_str err then []
                         else [\<lparr>pair.front_date = fst f', front_iv = iv (snd f'),
                                 front_dte = dte (snd f'), back_date = fst b',
                                 back_iv = iv (snd b'), back_dte = dte (snd b'),
                                 forward_vol = vol, forward_factor = ff\<rparr>])
                   (zip (pre @ f # b # post) (tl (pre @ f # b # post))))"
proof -
  let ?S = "pre @ f # b # post"
  let ?out = "find_best_pairs rnd pow_half expirations"
  obtain msg where msg: "msg \<noteq> []"
    "calculate_forward_factor_fl rnd pow_half
       (iv (snd f)) (dte (snd f)) (iv (snd b)) (dte (snd b)) = (None, None, Some msg)"
    using fl_nonpositive [where pow_half = pow_half, OF assms(3,4,5)] by blast
  have skip: "emit_pair rnd pow_half f b = []"
    using msg by (simp add: emit_pair_def truthy_str_def)
  have out: "?out = concat (map (\<lambda>(f', b'). emit_pair rnd pow_half f' b') (zip ?S (tl ?S)))"
    unfolding find_best_pairs_def Let_def assms(7) by (rule pairs_loop_concat)
  have dS: "distinct (map fst ?S)"
    using distinct_keys_sorted [OF assms(6), of "\<lambda>x. dte (snd x)"] unfolding assms(7) .
  have B: "\<not> (pair.front_date p = fst f \<and> pair.back_date p = fst b)" if p: "p \<in> set ?out" for p
  proof
    assume h: "pair.front_date p = fst f \<and> pair.back_date p = fst b"
    from p obtain f' b' where fb: "(f', b') \<in> set (zip ?S (tl ?S))"
      and pe: "p \<in> set (emit_pair rnd pow_half f' b')"
      unfolding out by auto
    from pe have "pair.front_date p = fst f'"
      by (auto simp add: emit_pair_def split: prod.splits if_splits)
    with h have "fst f' = fst f" by simp
    from adjacent_unique [OF dS refl fb this] have "f' = f" "b' = b" by simp_all
    with pe skip show False by simp
  qed
  have C: "\<lparr>pair.front_date = fst f', front_iv = iv (snd f'), front_dte = dte (snd f'),
            back_date = fst b', back_iv = iv (snd b'), back_dte = dte (snd b'),
            forward_vol = vol, forward_factor = ff\<rparr> \<in> set ?out"
    if fb: "(f', b') \<in> set (zip ?S (tl ?S))"
      and r: "calculate_forward_factor_fl rnd pow_half
                 (iv (snd f')) (dte (snd f')) (iv (snd b')) (dte (snd b')) = (vol, ff, err)"
      and e: "\<not> truthy_str err" for f' b' vol ff err
  proof -
    let ?p = "\<lparr>pair.front_date = fst f', front_iv = iv (snd f'), front_dte = dte (snd f'),
              back_date = fst b', back_iv = iv (snd b'), back_dte = dte (snd b'),
              forward_vol = vol, forward_factor = ff\<rparr>"
    have "emit_pair rnd pow_half f' b' = [?p]"
      using r e by (simp add: emit_pair_def)
    then have "?p \<in> set ((\<lambda>(f', b'). emit_pair rnd pow_half f' b') (f', b'))" by simp
    with fb have "\<exists>z \<in> set (zip ?S (tl ?S)). ?p \<in> set ((\<lambda>(f', b'). emit_pair rnd pow_half f' b') z)"
      by (rule rev_bexI)
    then show ?thesis unfolding out set_concat set_map by blast
  qed
  have D: "?out = concat (map (\<lambda>(f', b').
                     case calculate_forward_factor_fl rnd pow_half
                            (iv (snd f')) (dte (snd f')) (iv (snd b')) (dte (snd b')) of
                       (vol, ff, err) \<Rightarrow>
                         if truthy_str err then []
                         else [\<lparr>pair.front_date = fst f', front_iv = iv (snd f'),
                                 front_dte = dte (snd f'), back_date = fst b',
                                 back_iv = iv (snd b'), back_dte = dte (snd b'),
                                 forward_vol = vol, forward_factor = ff\<rparr>])
                   (zip ?S (tl ?S)))"
    unfolding out emit_pair_def ..
  show ?thesis
  proof (intro conjI)
    show "\<exists>msg. msg \<noteq> [] \<and>
            calculate_forward_factor_fl rnd pow_half
              (iv (snd f)) (dte (snd f)) (iv (snd b)) (dte (snd b)) = (None, None, Some msg)"
      using msg by blast
    show "\<forall>p \<in> set ?out. \<not> (pair.front_date p = fst f \<and> pair.back_date p = fst b)"
      using B by blast
    show "?out = concat (map (\<lambda>(f', b').
                     case calculate_forward_factor_fl rnd pow_half
                            (iv (snd f')) (dte (snd f')) (iv (snd b')) (dte (snd b')) of
                       (vol, ff, err) \<Rightarrow>
                         if truthy_str err then []
                         else [\<lparr>pair.front_date = fst f', front_iv = iv (snd f'),
                                 front_dte = dte (snd f'), back_date = fst b',
                                 back_iv = iv (snd b'), back_dte = dte (snd b'),
                                 forward_vol = vol, forward_factor = ff\<rparr>])
                   (zip ?S (tl ?S)))"
      by (rule D)
  next
    show "\<forall>(f', b') \<in> set (zip ?S (tl ?S)).
             \<forall>vol ff err.
               calculate_forward_factor_fl rnd pow_half
                 (iv (snd f')) (dte (snd f')) (iv (snd b')) (dte (snd b')) = (vol, ff, err)
               \<and> \<not> truthy_str err \<longrightarrow>
               \<lparr>pair.front_date = fst f', front_iv = iv (snd f'), front_dte = dte (snd f'),
                back_date = fst b', back_iv = iv (snd b'), back_dte = dte (snd b'),
                forward_vol = vol, forward_factor = ff\<rparr> \<in> set ?out"
      by (clarify, rule C, assumption+)
  qed
qed

theorem nonpositive_variance_skipped_witness:
  "computed_forward_var no_rounding 40 10 20 40 = Inr 0
   \<and> calculate_forward_factor_fl no_rounding sqrt 40 10 20 40
       = (None, None, Some ''float division by zero'')
   \<and> find_best_pairs no_rounding sqrt example_ladder =
       [\<lparr>pair.front_date = 20143, front_iv = 40, front_dte = 5,
         back_date = 20148, back_iv = 40, back_dte = 10,
         forward_vol = Some 40, forward_factor = Some 0\<rparr>,
        \<lparr>pair.front_date = 20178, front_iv = 20, front_dte = 40,
         back_date = 20218, back_iv = 20, back_dte = 80,
         forward_vol = Some 20, forward_factor = Some 0\<rparr>,
        \<lparr>pair.front_date = 20228, front_iv = 10, front_dte = 90,
         back_date = 20318, back_iv = 10, back_dte = 180,
         forward_vol = Some 10, forward_factor = Some 0\<rparr>]"
proof -
  let ?z = "(20143::int, \<lparr>iv = 40, dte = 5, count = 3\<rparr>)"
  let ?f = "(20148::int, \<lparr>iv = 40, dte = 10, count = 5\<rparr>)"
  let ?b = "(20178::int, \<lparr>iv = 20, dte = 40, count = 3\<rparr>)"
  let ?c = "(20218::int, \<lparr>iv = 20, dte = 80, count = 3\<rparr>)"
  let ?d = "(20228::int, \<lparr>iv = 10, dte = 90, count = 3\<rparr>)"
  let ?e = "(20318::int, \<lparr>iv = 10, dte = 180, count = 4\<rparr>)"
  have h1: "0 < dte (snd ?f)" and h2: "dte (snd ?f) < dte (snd ?b)" by simp_all
  have h3: "computed_forward_var no_rounding (iv (snd ?f)) (dte (snd ?f)) (iv (snd ?b))
              (dte (snd ?b)) = Inr 0"
    by (simp add: computed_forward_var_def no_rounding_def py_truediv_def Let_def
        power2_eq_square)
  have h4: "(0::real) \<le> 0" and h5: "sqrt 0 = 0" by simp_all
  have h6: "distinct (map fst example_ladder)" by (simp add: example_ladder_def)
  have h7: "sort_key (\<lambda>x. dte (snd x)) example_ladder = [?z] @ ?f # ?b # [?c, ?d, ?e]"
    by (simp add: example_ladder_def)
  from nonpositive_variance_skipped [where pow_half = sqrt, OF h1 h2 h3 h4 h5 h6 h7] h3
  show ?thesis
    by (simp add: exact_instance calc_40_5_40_10 calc_40_10_20_40 calc_20_40_20_80
        calc_20_80_10_90 calc_10_90_10_180 truthy_str_def)
qed

section \<open>The quality filter\<close>

lemma verify_unfold:
  "verify_forward_factor opp =
     (if forward_vol opp = 0 then (0, False)
      else ((front_iv opp / forward_vol opp - 1) * 100,
            \<bar>(front_iv opp / forward_vol opp - 1) * 100 - forward_factor opp\<bar> < 2))"
  by (simp add: verify_forward_factor_def verify_forward_factor_body_def py_truediv_def Let_def)

lemma filter1_append:
  "filter1_magnitude opp rs =
     rs @ (if gate_fails Magnitude opp then [gate_reason Magnitude opp] else [])"
  by (simp add: filter1_magnitude_def gate_reason_def)

lemma filter2_short_append:
  "filter2_dte_short opp rs =
     rs @ (if gate_fails Front_DTE_floor opp then [gate_reason Front_DTE_floor opp] else [])"
  by (simp add: filter2_dte_short_def gate_reason_def)

lemma filter2_long_append:
  "filter2_dte_long opp rs =
     rs @ (if gate_fails Front_DTE_ceiling opp then [gate_reason Front_DTE_ceiling opp] else [])"
  by (simp add: filter2_dte_long_def gate_reason_def)

lemma filter3_low_append:
  "filter3_iv_low opp rs =
     rs @ (if gate_fails IV_floor opp then [gate_reason IV_floor opp] else [])"
  by (simp add: filter3_iv_low_def gate_reason_def)

lemma filter3_high_append:
  "filter3_iv_high opp rs =
     rs @ (if gate_fails IV_ceiling opp then [gate_reason IV_ceiling opp] else [])"
  by (simp add: filter3_iv_high_def gate_reason_def)

lemma filter4_append:
  "filter4_catalyst opp rs =
     rs @ (if gate_fails Earnings_conflict opp then [gate_reason Earnings_conflict opp] else [])"
  by (simp add: filter4_catalyst_def gate_reason_def)

lemma filter5_append:
  "filter5_verify opp rs =
     rs @ (if gate_fails Calculation_consistency opp
           then [gate_reason Calculation_consistency opp] else [])"
  by (simp add: filter5_verify_def gate_reason_def split: prod.splits)

lemma filter6_append:
  "filter6_dte_diff opp rs =
     rs @ (if gate_fails Spread_width opp then [gate_reason Spread_width opp] else [])"
  by (simp add: filter6_dte_diff_def gate_reason_def Let_def)

lemma reasons_unfold:
  "snd (apply_quality_filters opp ei) =
     map (\<lambda>g. gate_reason g opp) (filter (\<lambda>g. gate_fails g opp) all_gates)"
  unfolding apply_quality_filters_def Let_def snd_conv filter1_append filter2_short_append
    filter2_long_append filter3_low_append filter3_high_append filter4_append filter5_append
    filter6_append all_gates_def
  by (simp del: gate_fails.simps)

lemma quality_iff_no_reason:
  "fst (apply_quality_filters opp ei) = (snd (apply_quality_filters opp ei) = [])"
  by (simp add: apply_quality_filters_def Let_def)

lemma gate_of_reason: "gate_of (gate_reason g opp) = g"
  by (cases g) (simp_all add: gate_reason_def)

lemma all_gates_UNIV: "set all_gates = UNIV"
proof -
  have "g \<in> set all_gates" for g by (cases g) (simp_all add: all_gates_def)
  then show ?thesis by blast
qed

lemma all_gates_distinct: "distinct all_gates"
  by (simp add: all_gates_def)

lemma mismatch_mem:
  "(Calculation_mismatch a c \<in> set (snd (apply_quality_filters opp ei))) =
     (gate_fails Calculation_consistency opp \<and> a = forward_factor opp
        \<and> c = fst (verify_forward_factor opp))"
  unfolding reasons_unfold all_gates_def
  by (auto simp add: gate_reason_def simp del: gate_fails.simps)

lemma false_signal_mem:
  "(False_signal a b c \<in> set (snd (apply_quality_filters opp ei))) =
     (gate_fails Earnings_conflict opp \<and> a = front_iv opp \<and> b = back_iv opp
        \<and> c = forward_factor opp)"
  unfolding reasons_unfold all_gates_def
  by (auto simp add: gate_reason_def simp del: gate_fails.simps)

text \<open>
  Claim C3. \<^verbatim>\<open>apply_quality_filters\<close> evaluates all eight gates: the gates of the returned
  reasons are exactly the failing gates, each once and in source order (\<open>all_gates\<close> lists
  every gate once), whatever the earnings info; and \<open>is_quality\<close> is true if and only if
  the reason list is empty, that is, if and only if no gate fails.
\<close>

theorem apply_quality_filters_exhaustive:
  "map gate_of (snd (apply_quality_filters opp ei)) = filter (\<lambda>g. gate_fails g opp) all_gates
   \<and> set all_gates = UNIV \<and> distinct all_gates
   \<and> fst (apply_quality_filters opp ei) = (snd (apply_quality_filters opp ei) = [])
   \<and> fst (apply_quality_filters opp ei) = (\<forall>g. \<not> gate_fails g opp)"
proof -
  have a: "map gate_of (snd (apply_quality_filters opp ei))
             = filter (\<lambda>g. gate_fails g opp) all_gates"
    unfolding reasons_unfold by (simp add: comp_def gate_of_reason del: gate_fails.simps)
  have c: "(snd (apply_quality_filters opp ei) = []) = (\<forall>g. \<not> gate_fails g opp)"
    unfolding reasons_unfold using all_gates_UNIV
    by (auto simp add: filter_empty_conv simp del: gate_fails.simps)
  show ?thesis
    using a c quality_iff_no_reason [of opp ei] all_gates_UNIV all_gates_distinct by simp
qed

theorem apply_quality_filters_exhaustive_witness:
  "apply_quality_filters example_opp None = (True, [])
   \<and> map gate_of (snd (apply_quality_filters
        (example_opp\<lparr>forward_factor := 25, front_dte := 5\<rparr>) None))
       = [Magnitude, Front_DTE_floor, Calculation_consistency]
   \<and> \<not> fst (apply_quality_filters (example_opp\<lparr>forward_factor := 25, front_dte := 5\<rparr>) None)"
proof -
  let ?bad = "example_opp\<lparr>forward_factor := 25, front_dte := 5\<rparr>"
  have g: "filter (\<lambda>g. gate_fails g example_opp) all_gates = []"
    by (simp add: all_gates_def example_opp_def verify_unfold is_inverted_def get_dte_diff_def
        MIN_FORWARD_FACTOR_def MIN_DTE_def MAX_DTE_def MIN_IV_def MAX_IV_def)
  have b: "filter (\<lambda>g. gate_fails g ?bad) all_gates
             = [Magnitude, Front_DTE_floor, Calculation_consistency]"
    by (simp add: all_gates_def example_opp_def verify_unfold is_inverted_def get_dte_diff_def
        MIN_FORWARD_FACTOR_def MIN_DTE_def MAX_DTE_def MIN_IV_def MAX_IV_def)
  from apply_quality_filters_exhaustive [of example_opp None] g
  have 1: "apply_quality_filters example_opp None = (True, [])"
    by (simp add: prod_eq_iff del: gate_fails.simps)
  from apply_quality_filters_exhaustive [of ?bad None] b
  have 2: "map gate_of (snd (apply_quality_filters ?bad None))
             = [Magnitude, Front_DTE_floor, Calculation_consistency]
           \<and> \<not> fst (apply_quality_filters ?bad None)"
    by (auto simp del: gate_fails.simps)
  from 1 2 show ?thesis by simp
qed

text \<open>
  Claim C4, as amended. The calculation-consistency gate does not re-derive the forward
  factor from the two DTEs and the back IV: \<^verbatim>\<open>verify_forward_factor\<close> computes
  \<open>(front_iv / forward_vol - 1) * 100\<close> from the stored \<open>forward_vol\<close> (and \<open>0\<close> when that
  is zero), and the gate adds its reason exactly when the stored \<open>forward_vol\<close> is zero or
  that value differs from the stored \<open>forward_factor\<close> by at least 2.
\<close>

theorem consistency_gate_uses_stored_forward_vol:
  "fst (verify_forward_factor opp) =
     (if forward_vol opp = 0 then 0 else (front_iv opp / forward_vol opp - 1) * 100)
   \<and> ((\<exists>c. Calculation_mismatch (forward_factor opp) c
              \<in> set (snd (apply_quality_filters opp ei)))
        = (forward_vol opp = 0
           \<or> \<bar>(front_iv opp / forward_vol opp - 1) * 100 - forward_factor opp\<bar> \<ge> 2))"
  by (auto simp add: mismatch_mem verify_unfold)

theorem consistency_gate_uses_stored_forward_vol_witness:
  "fst (verify_forward_factor stale_opp) = 100
   \<and> \<not> (\<exists>c. Calculation_mismatch 100 c \<in> set (snd (apply_quality_filters stale_opp None)))
   \<and> (\<exists>c. Calculation_mismatch 100 c
          \<in> set (snd (apply_quality_filters (stale_opp\<lparr>forward_vol := 20\<rparr>) None)))"
  using consistency_gate_uses_stored_forward_vol [of stale_opp None]
    consistency_gate_uses_stored_forward_vol [of "stale_opp\<lparr>forward_vol := 20\<rparr>" None]
  by (simp add: stale_opp_def)

text \<open>
  The claim as stated fails on \<open>stale_opp\<close>: the calculator gives forward factor \<open>0\<close> for
  its IVs and DTEs, the stored forward factor is \<open>100\<close>, and the gate accepts it, because
  the stored \<open>forward_vol = 10\<close> reproduces the stored forward factor.
\<close>

theorem consistency_gate_counterexample:
  "calculate_forward_factor (front_iv stale_opp) (front_dte stale_opp)
       (back_iv stale_opp) (back_dte stale_opp) = (Some 20, Some 0, None)
   \<and> spec_forward_factor (front_iv stale_opp) (front_dte stale_opp)
       (back_iv stale_opp) (back_dte stale_opp) = 0
   \<and> \<bar>0 - forward_factor stale_opp\<bar> \<ge> 2
   \<and> verify_forward_factor stale_opp = (100, True)
   \<and> filter5_verify stale_opp [] = []
   \<and> Calculation_mismatch (forward_factor stale_opp) (fst (verify_forward_factor stale_opp))
        \<notin> set (snd (apply_quality_filters stale_opp None))"
proof -
  have 1: "calculate_forward_factor (front_iv stale_opp) (front_dte stale_opp)
       (back_iv stale_opp) (back_dte stale_opp) = (Some 20, Some 0, None)"
    by (simp add: stale_opp_def calc_20_30_20_60)
  have 2: "spec_forward_factor (front_iv stale_opp) (front_dte stale_opp)
       (back_iv stale_opp) (back_dte stale_opp) = 0"
    by (simp add: stale_opp_def spec_forward_factor_def variance_20_30_20_60 sqrt_twentyfifth)
  have 3: "verify_forward_factor stale_opp = (100, True)"
    by (simp add: verify_unfold stale_opp_def)
  have 4: "filter5_verify stale_opp [] = []"
    by (simp add: filter5_verify_def 3)
  have 5: "Calculation_mismatch (forward_factor stale_opp) (fst (verify_forward_factor stale_opp))
        \<notin> set (snd (apply_quality_filters stale_opp None))"
    by (simp add: mismatch_mem 3)
  have 6: "\<bar>0 - forward_factor stale_opp\<bar> \<ge> 2" by (simp add: stale_opp_def)
  from 1 2 3 4 5 6 show ?thesis by blast
qed

text \<open>
  Claim C5. For \<open>back_dte > front_dte > 0\<close> and positive forward variance, an opportunity
  whose stored \<open>forward_vol\<close> and \<open>forward_factor\<close> are the ones
  \<^verbatim>\<open>calculate_forward_factor\<close> returns for its own IVs and DTEs is verified exactly:
  \<^verbatim>\<open>verify_forward_factor\<close> recomputes the stored forward factor (difference 0) and reports
  a match, so the calculation-consistency gate passes and adds no reason. (Both functions
  read nothing but their arguments, so recomputing gives the same value.)
\<close>

theorem verification_agrees_with_calculator:
  assumes "0 < front_dte opp" and "front_dte opp < back_dte opp"
      and "spec_forward_variance (front_iv opp) (front_dte opp) (back_iv opp) (back_dte opp) > 0"
      and "calculate_forward_factor (front_iv opp) (front_dte opp) (back_iv opp) (back_dte opp)
             = (Some (forward_vol opp), Some (forward_factor opp), None)"
  shows "verify_forward_factor opp = (forward_factor opp, True)
       \<and> fst (verify_forward_factor opp) - forward_factor opp = 0
       \<and> \<not> gate_fails Calculation_consistency opp
       \<and> (\<forall>a c. Calculation_mismatch a c \<notin> set (snd (apply_quality_filters opp ei)))"
proof -
  let ?v = "spec_forward_variance (front_iv opp) (front_dte opp) (back_iv opp) (back_dte opp)"
  have s: "sqrt ?v > 0" using assms(3) by simp
  from calc_positive [OF assms(2,3)] assms(4)
  have fv: "forward_vol opp = sqrt ?v * 100"
    and ff: "forward_factor opp = ((front_iv opp / 100 - sqrt ?v) / sqrt ?v) * 100"
    by simp_all
  have nz: "forward_vol opp \<noteq> 0" using fv s by simp
  have eq: "(front_iv opp / forward_vol opp - 1) * 100 = forward_factor opp"
    unfolding fv ff using s by (simp add: field_simps)
  have v: "verify_forward_factor opp = (forward_factor opp, True)"
    unfolding verify_unfold using nz eq by simp
  then have g: "\<not> gate_fails Calculation_consistency opp" by simp
  show ?thesis using v g by (simp add: mismatch_mem del: gate_fails.simps)
qed

theorem verification_agrees_with_calculator_witness:
  "calculate_forward_factor (front_iv example_opp) (front_dte example_opp)
       (back_iv example_opp) (back_dte example_opp)
     = (Some (forward_vol example_opp), Some (forward_factor example_opp), None)
   \<and> verify_forward_factor example_opp = (600, True)"
proof -
  have h: "0 < front_dte example_opp" "front_dte example_opp < back_dte example_opp"
    "spec_forward_variance (front_iv example_opp) (front_dte example_opp)
       (back_iv example_opp) (back_dte example_opp) > 0"
    "calculate_forward_factor (front_iv example_opp) (front_dte example_opp)
       (back_iv example_opp) (back_dte example_opp)
     = (Some (forward_vol example_opp), Some (forward_factor example_opp), None)"
    by (simp_all add: example_opp_def variance_70_30_50_60 calc_70_30_50_60)
  from verification_agrees_with_calculator [OF h, of None] h(4)
  show ?thesis by (simp add: example_opp_def)
qed

text \<open>
  Claim C6. The earnings-conflict gate adds its reason exactly when the opportunity has
  earnings soon, its term structure is inverted (\<open>front_iv > back_iv\<close>) and
  \<open>\<bar>forward_factor\<bar> < 40\<close>. So for an opportunity with earnings soon and an inverted
  structure the reason is there exactly when \<open>\<bar>forward_factor\<bar> < 40\<close>, and without
  earnings soon or without inversion the gate never adds a reason.
\<close>

theorem earnings_conflict_gate:
  "((\<exists>a b c. False_signal a b c \<in> set (snd (apply_quality_filters opp ei)))
      = (has_earnings_soon opp \<and> front_iv opp > back_iv opp \<and> \<bar>forward_factor opp\<bar> < 40))
   \<and> (has_earnings_soon opp \<and> front_iv opp > back_iv opp \<longrightarrow>
        (False_signal (front_iv opp) (back_iv opp) (forward_factor opp)
            \<in> set (snd (apply_quality_filters opp ei))) = (\<bar>forward_factor opp\<bar> < 40))
   \<and> (\<not> has_earnings_soon opp \<or> \<not> front_iv opp > back_iv opp \<longrightarrow>
        (\<forall>a b c. False_signal a b c \<notin> set (snd (apply_quality_filters opp ei))))"
  by (auto simp add: false_signal_mem is_inverted_def)

theorem earnings_conflict_gate_witness:
  "False_signal 40 30 35 \<in> set (snd (apply_quality_filters (earnings_opp 35) None))
   \<and> False_signal 40 30 45 \<notin> set (snd (apply_quality_filters (earnings_opp 45) None))
   \<and> (\<forall>a b c. False_signal a b c \<notin> set (snd (apply_quality_filters
         ((earnings_opp 35)\<lparr>has_earnings_soon := False\<rparr>) None)))
   \<and> (\<forall>a b c. False_signal a b c \<notin> set (snd (apply_quality_filters
         ((earnings_opp 35)\<lparr>back_iv := 50\<rparr>) None)))"
  using earnings_conflict_gate [of "earnings_opp 35" None]
    earnings_conflict_gate [of "earnings_opp 45" None]
    earnings_conflict_gate [of "(earnings_opp 35)\<lparr>has_earnings_soon := False\<rparr>" None]
    earnings_conflict_gate [of "(earnings_opp 35)\<lparr>back_iv := 50\<rparr>" None]
  by (simp add: earnings_opp_def)

text \<open>
  Claim C10. When the stored \<open>forward_vol\<close> is zero, \<^verbatim>\<open>verify_forward_factor\<close> returns
  \<^verbatim>\<open>(0.0, False)\<close> without dividing, so \<^verbatim>\<open>apply_quality_filters\<close> adds the
  calculation-mismatch reason and the opportunity is not a quality setup, whatever its
  other fields.
\<close>

theorem zero_forward_vol_rejected:
  assumes "forward_vol opp = 0"
  shows "verify_forward_factor opp = (0, False)
       \<and> verify_forward_factor_body opp = Inr (0, False)
       \<and> Calculation_mismatch (forward_factor opp) 0 \<in> set (snd (apply_quality_filters opp ei))
       \<and> \<not> fst (apply_quality_filters opp ei)"
proof -
  have v: "verify_forward_factor opp = (0, False)" using assms by (simp add: verify_unfold)
  have b: "verify_forward_factor_body opp = Inr (0, False)"
    using assms by (simp add: verify_forward_factor_body_def)
  from v have m: "Calculation_mismatch (forward_factor opp) 0
                    \<in> set (snd (apply_quality_filters opp ei))"
    by (simp add: mismatch_mem)
  then have "snd (apply_quality_filters opp ei) \<noteq> []" by auto
  then have "\<not> fst (apply_quality_filters opp ei)" by (simp add: quality_iff_no_reason)
  with v b m show ?thesis by simp
qed

theorem zero_forward_vol_rejected_witness:
  "forward_vol (example_opp\<lparr>forward_vol := 0\<rparr>) = 0
   \<and> verify_forward_factor (example_opp\<lparr>forward_vol := 0\<rparr>) = (0, False)
   \<and> Calculation_mismatch 600 0
        \<in> set (snd (apply_quality_filters (example_opp\<lparr>forward_vol := 0\<rparr>) None))
   \<and> \<not> fst (apply_quality_filters (example_opp\<lparr>forward_vol := 0\<rparr>) None)"
proof -
  have h: "forward_vol (example_opp\<lparr>forward_vol := 0\<rparr>) = 0" by simp
  from zero_forward_vol_rejected [OF h, of None] show ?thesis
    by (simp add: example_opp_def)
qed

section \<open>The rating\<close>

lemma step_plus: "(if c then r + 1 else r) = r + flag c"
  by (simp add: flag_def)

lemma step_minus: "(if c then r - 1 else r) = r - flag c"
  by (simp add: flag_def)

lemma step_ff:
  "(if a \<ge> 80 then r + 3 else if a \<ge> 60 then r + 2 else r + flag (a \<ge> 40)) = r + ff_bonus a"
  by (simp add: ff_bonus_def flag_def)

lemma step_catalyst:
  "(case ei of
      None \<Rightarrow> r
    | Some e \<Rightarrow>
        (if ei_has_earnings_soon e
         then r + flag (front_is_pre_earnings e \<and> back_is_post_earnings e)
         else r)) = r + catalyst_bonus ei"
  by (simp add: catalyst_bonus_def flag_def split: option.splits)

lemma rating_unfold:
  "calculate_rating opp ei p rr =
     max 0 (min 10 (5 + ff_bonus \<bar>forward_factor opp\<bar> + catalyst_bonus ei
        + flag (20 \<le> front_dte opp \<and> front_dte opp \<le> 60) - flag (is_inverted opp)
        + flag (p \<ge> 80) + flag (rr \<ge> 4)))"
  unfolding calculate_rating_def Let_def step_plus step_minus step_ff step_catalyst ..

lemma ff_bonus_mono: "a \<le> b \<Longrightarrow> ff_bonus a \<le> ff_bonus b"
  by (simp add: ff_bonus_def)

lemma flag_mono: "(c \<Longrightarrow> d) \<Longrightarrow> flag c \<le> flag d"
  by (auto simp add: flag_def)

lemma probability_ge_80:
  "(calculate_probability opp \<ge> 80) = (\<not> has_earnings_soon opp \<and> \<bar>forward_factor opp\<bar> \<ge> 60)"
  by (simp add: calculate_probability_def Let_def)

lemma risk_reward_ge_4: "(calculate_risk_reward opp \<ge> 4) = (\<bar>forward_factor opp\<bar> \<ge> 60)"
  by (simp add: calculate_risk_reward_def Let_def)

text \<open>
  Claim C7. \<^verbatim>\<open>calculate_rating\<close> returns an integer between 0 and 10 for every opportunity,
  earnings info, probability and risk/reward; and for two opportunities that differ only
  in \<open>forward_factor\<close>, with probability and risk/reward recomputed from each by
  \<^verbatim>\<open>calculate_probability\<close> and \<^verbatim>\<open>calculate_risk_reward\<close>, the one with the larger
  \<open>\<bar>forward_factor\<bar>\<close> has a rating at least as high.
\<close>

theorem rating_bounded_monotone:
  "0 \<le> calculate_rating opp ei p rr \<and> calculate_rating opp ei p rr \<le> 10
   \<and> (\<bar>ff1\<bar> \<le> \<bar>ff2\<bar> \<longrightarrow>
        calculate_rating (opp\<lparr>forward_factor := ff1\<rparr>) ei
            (calculate_probability (opp\<lparr>forward_factor := ff1\<rparr>))
            (calculate_risk_reward (opp\<lparr>forward_factor := ff1\<rparr>))
        \<le> calculate_rating (opp\<lparr>forward_factor := ff2\<rparr>) ei
            (calculate_probability (opp\<lparr>forward_factor := ff2\<rparr>))
            (calculate_risk_reward (opp\<lparr>forward_factor := ff2\<rparr>)))"
proof -
  have b: "0 \<le> calculate_rating opp ei p rr \<and> calculate_rating opp ei p rr \<le> 10"
    unfolding rating_unfold by simp
  have m: "calculate_rating (opp\<lparr>forward_factor := ff1\<rparr>) ei
            (calculate_probability (opp\<lparr>forward_factor := ff1\<rparr>))
            (calculate_risk_reward (opp\<lparr>forward_factor := ff1\<rparr>))
        \<le> calculate_rating (opp\<lparr>forward_factor := ff2\<rparr>) ei
            (calculate_probability (opp\<lparr>forward_factor := ff2\<rparr>))
            (calculate_risk_reward (opp\<lparr>forward_factor := ff2\<rparr>))" if h: "\<bar>ff1\<bar> \<le> \<bar>ff2\<bar>"
  proof -
    have 1: "ff_bonus \<bar>ff1\<bar> \<le> ff_bonus \<bar>ff2\<bar>"
      using h by (rule ff_bonus_mono)
    have 2: "flag (\<not> has_earnings_soon opp \<and> \<bar>ff1\<bar> \<ge> 60)
               \<le> flag (\<not> has_earnings_soon opp \<and> \<bar>ff2\<bar> \<ge> 60)"
      using h by (intro flag_mono) auto
    have 3: "flag (\<bar>ff1\<bar> \<ge> 60) \<le> flag (\<bar>ff2\<bar> \<ge> 60)"
      using h by (intro flag_mono) auto
    have "5 + ff_bonus \<bar>ff1\<bar> + catalyst_bonus ei
        + flag (20 \<le> front_dte opp \<and> front_dte opp \<le> 60) - flag (front_iv opp > back_iv opp)
        + flag (\<not> has_earnings_soon opp \<and> \<bar>ff1\<bar> \<ge> 60) + flag (\<bar>ff1\<bar> \<ge> 60)
       \<le> 5 + ff_bonus \<bar>ff2\<bar> + catalyst_bonus ei
        + flag (20 \<le> front_dte opp \<and> front_dte opp \<le> 60) - flag (front_iv opp > back_iv opp)
        + flag (\<not> has_earnings_soon opp \<and> \<bar>ff2\<bar> \<ge> 60) + flag (\<bar>ff2\<bar> \<ge> 60)"
      using 1 2 3 by linarith
    then show ?thesis
      unfolding rating_unfold probability_ge_80 risk_reward_ge_4 is_inverted_def
      by (intro max.mono min.mono order_refl) simp
  qed
  show ?thesis using b m by blast
qed

theorem rating_bounded_monotone_witness:
  "\<bar>35::real\<bar> \<le> \<bar>- 85\<bar>
   \<and> calculate_rating (example_opp\<lparr>forward_factor := 35\<rparr>) None
        (calculate_probability (example_opp\<lparr>forward_factor := 35\<rparr>))
        (calculate_risk_reward (example_opp\<lparr>forward_factor := 35\<rparr>)) = 5
   \<and> calculate_rating (example_opp\<lparr>forward_factor := - 85\<rparr>) None
        (calculate_probability (example_opp\<lparr>forward_factor := - 85\<rparr>))
        (calculate_risk_reward (example_opp\<lparr>forward_factor := - 85\<rparr>)) = 10
   \<and> 0 \<le> calculate_rating example_opp None 100 100
   \<and> calculate_rating example_opp None 100 100 \<le> 10"
  using rating_bounded_monotone [of example_opp None 100 100 35 "- 85"]
  by (simp add: rating_unfold probability_ge_80 risk_reward_ge_4 example_opp_def ff_bonus_def
      catalyst_bonus_def flag_def is_inverted_def)

section \<open>The term structure builder\<close>

lemma surviving_Nil: "surviving_ivs s p [] d = []"
  by (simp add: surviving_ivs_def map_filter_simps)

lemma surviving_Cons:
  "surviving_ivs s p (opt # rest) d =
     (case contract_entry s p opt of
        None \<Rightarrow> surviving_ivs s p rest d
      | Some (k, v) \<Rightarrow>
          if k = d then v # surviving_ivs s p rest d else surviving_ivs s p rest d)"
  by (simp add: surviving_ivs_def map_filter_simps split: option.splits)

lemma append_iv_keys: "set (map fst (append_iv k v xs)) = insert k (set (map fst xs))"
  by (induction k v xs rule: append_iv.induct) (simp_all add: insert_commute)

lemma append_iv_distinct: "distinct (map fst xs) \<Longrightarrow> distinct (map fst (append_iv k v xs))"
proof (induction xs)
  case Nil
  then show ?case by simp
next
  case (Cons x xs)
  obtain k' vs where x: "x = (k', vs)" by (cases x)
  with Cons show ?case using append_iv_keys [of k v xs] by auto
qed

lemma append_iv_lookup:
  "map_of (append_iv k v xs) d =
     (if d = k then Some ((case map_of xs k of None \<Rightarrow> [] | Some vs \<Rightarrow> vs) @ [v])
      else map_of xs d)"
  by (induction xs) auto

lemma collect_distinct:
  "distinct (map fst acc) \<Longrightarrow> distinct (map fst (collect_ivs s p opts acc))"
  by (induction opts arbitrary: acc) (auto split: option.splits simp: append_iv_distinct)

lemma collect_lookup:
  "map_of (collect_ivs s p opts acc) d =
     (case map_of acc d of
        None \<Rightarrow> (if surviving_ivs s p opts d = [] then None else Some (surviving_ivs s p opts d))
      | Some vs \<Rightarrow> Some (vs @ surviving_ivs s p opts d))"
proof (induction opts arbitrary: acc)
  case Nil
  show ?case by (simp add: surviving_Nil split: option.splits)
next
  case (Cons opt rest)
  show ?case
  proof (cases "contract_entry s p opt")
    case None
    then show ?thesis by (simp add: Cons.IH surviving_Cons split: option.splits)
  next
    case (Some e)
    obtain k v where e: "e = (k, v)" by (cases e)
    show ?thesis
      using Some e by (simp add: Cons.IH surviving_Cons append_iv_lookup split: option.splits)
  qed
qed

lemma average_Cons:
  "average_ivs today ((k, vs) # rest) =
     (if 3 \<le> length vs \<and> 0 < k - today
      then (k, \<lparr>iv = sum_list vs / real (length vs), dte = k - today, count = length vs\<rparr>)
             # average_ivs today rest
      else average_ivs today rest)"
  by (simp add: Let_def calculate_dte_def)

lemma average_keys: "fst ` set (average_ivs today xs) \<subseteq> fst ` set xs"
proof (induction xs)
  case Nil
  show ?case by simp
next
  case (Cons x xs)
  obtain k vs where x: "x = (k, vs)" by (cases x)
  from Cons show ?case unfolding x average_Cons by auto
qed

lemma average_distinct: "distinct (map fst xs) \<Longrightarrow> distinct (map fst (average_ivs today xs))"
proof (induction xs)
  case Nil
  show ?case by simp
next
  case (Cons x xs)
  obtain k vs where x: "x = (k, vs)" by (cases x)
  from Cons show ?case unfolding x average_Cons using average_keys [of today xs] by auto
qed

lemma average_lookup:
  "distinct (map fst xs) \<Longrightarrow>
   map_of (average_ivs today xs) d =
     (case map_of xs d of
        None \<Rightarrow> None
      | Some vs \<Rightarrow>
          if 3 \<le> length vs \<and> 0 < d - today
          then Some \<lparr>iv = sum_list vs / real (length vs), dte = d - today, count = length vs\<rparr>
          else None)"
proof (induction xs)
  case Nil
  show ?case by simp
next
  case (Cons x xs)
  obtain k vs where x: "x = (k, vs)" by (cases x)
  have nk: "map_of xs k = None" using Cons.prems x by (simp add: map_of_eq_None_iff)
  have d: "distinct (map fst xs)" using Cons.prems by simp
  show ?case
  proof (cases "d = k")
    case True
    have "map_of (average_ivs today xs) k = None"
      using Cons.IH [OF d] nk unfolding True by simp
    then show ?thesis unfolding x average_Cons True by simp
  next
    case False
    then show ?thesis unfolding x average_Cons using Cons.IH [OF d] by simp
  qed
qed

text \<open>
  Claim C8. The result of \<^verbatim>\<open>group_by_expiration\<close> has a term point for the expiration
  \<open>d\<close> if and only if a stock price estimate was found, at least three contracts survive
  the filters at \<open>d\<close> and \<open>d - today\<close> is positive; its \<open>iv\<close> is then the arithmetic mean of
  the surviving implied volatilities, its \<open>dte\<close> is \<open>d - today\<close> and its \<open>count\<close> their
  number. No expiration has two term points.
\<close>

theorem group_by_expiration_term_point:
  "map_of (group_by_expiration strptime today options_data) d =
     (case estimate_stock_price options_data of
        None \<Rightarrow> None
      | Some stock_price \<Rightarrow>
          if stock_price \<noteq> 0
             \<and> 3 \<le> length (surviving_ivs strptime stock_price options_data d)
             \<and> 0 < d - today
          then Some \<lparr>iv = sum_list (surviving_ivs strptime stock_price options_data d)
                           / real (length (surviving_ivs strptime stock_price options_data d)),
                     dte = d - today,
                     count = length (surviving_ivs strptime stock_price options_data d)\<rparr>
          else None)
   \<and> distinct (map fst (group_by_expiration strptime today options_data))"
proof -
  have d0: "distinct (map fst (collect_ivs strptime p options_data []))" for p
    by (rule collect_distinct) simp
  have l: "map_of (average_ivs today (collect_ivs strptime p options_data [])) d =
       (if 3 \<le> length (surviving_ivs strptime p options_data d) \<and> 0 < d - today
        then Some \<lparr>iv = sum_list (surviving_ivs strptime p options_data d)
                           / real (length (surviving_ivs strptime p options_data d)),
                     dte = d - today,
                     count = length (surviving_ivs strptime p options_data d)\<rparr>
        else None)" for p
    unfolding average_lookup [OF d0] collect_lookup by simp
  have a: "distinct (map fst (group_by_expiration strptime today options_data))"
    by (simp add: group_by_expiration_def average_distinct [OF d0] split: option.splits)
  show ?thesis using a by (simp add: group_by_expiration_def l split: option.splits)
qed

lemma example_chain_price: "estimate_stock_price example_chain = Some 100"
  by (simp add: example_chain_def contract_def)

lemma example_chain_march: "surviving_ivs example_strptime 100 example_chain 20168 = [30, 32, 34]"
  by (simp add: surviving_ivs_def map_filter_simps example_chain_def contract_def
      contract_entry_def parse_expiration_date_def example_strptime_def)

lemma example_chain_april: "surviving_ivs example_strptime 100 example_chain 20196 = [40, 42]"
  by (simp add: surviving_ivs_def map_filter_simps example_chain_def contract_def
      contract_entry_def parse_expiration_date_def example_strptime_def)

theorem group_by_expiration_term_point_witness:
  "map_of (group_by_expiration example_strptime 20138 example_chain) 20168
     = Some \<lparr>iv = 32, dte = 30, count = 3\<rparr>
   \<and> map_of (group_by_expiration example_strptime 20138 example_chain) 20196 = None"
  using group_by_expiration_term_point [of example_strptime 20138 example_chain 20168]
    group_by_expiration_term_point [of example_strptime 20138 example_chain 20196]
  by (simp add: example_chain_price example_chain_march example_chain_april)

section \<open>The earnings positioning resolver\<close>

lemma strptime_None: "strptime s = None \<Longrightarrow> py_strptime strptime s = Inl ValueError"
  by (simp add: py_strptime_def)

lemma body_malformed:
  assumes "client tk = Next_earnings_date (Some s)" and "s \<noteq> []"
      and "strptime s = None \<or> strptime front = None \<or> strptime back = None"
  shows "\<exists>e. get_earnings_info_body strptime now client tk front back = Inl e"
  using assms
  by (auto simp add: get_earnings_info_body_def py_strptime_def split: option.splits)

lemma yahoo_malformed:
  assumes "strptime s = None \<or> strptime front = None \<or> strptime back = None"
  shows "\<exists>e. yahoo_parse_dates strptime s front back = Inl e"
  using assms
  by (auto simp add: yahoo_parse_dates_def py_strptime_def split: option.splits)

text \<open>
  Claim C9, as amended. Neither resolver propagates an exception: every case returns a
  value. \<^verbatim>\<open>FFScannerService.get_earnings_info\<close> returns \<^verbatim>\<open>None\<close> when no client is
  configured or the client raises. When the provider has no earnings date (absent or
  empty) it returns an \<^verbatim>\<open>EarningsInfo\<close> with all booleans false and no date, whatever the
  two expiration date strings are: they are not parsed then, so a malformed one changes
  nothing. When an earnings date is there and it or one of the two expiration date strings
  is malformed, it returns \<^verbatim>\<open>None\<close>: no \<^verbatim>\<open>EarningsInfo\<close> at all, which \<^verbatim>\<open>calculate_rating\<close>
  rates like the all-false record. When all three strings parse it returns the computed
  positioning. \<^verbatim>\<open>YahooEarningsCalendar.get_earnings_info\<close> returns all booleans false and
  no date when the lookup finds no date (again whatever the expiration strings are), all
  booleans false with the earnings date kept when a date is found and one of the three
  strings is malformed, and the computed positioning otherwise.
\<close>

theorem earnings_resolver_degrades:
  "get_earnings_info strptime now None tk front back = None
   \<and> (client tk = Client_raises \<longrightarrow>
        get_earnings_info strptime now (Some client) tk front back = None)
   \<and> (client tk = Next_earnings_date ed \<and> (ed = None \<or> ed = Some []) \<longrightarrow>
        get_earnings_info strptime now (Some client) tk front back = Some (no_catalyst tk))
   \<and> (client tk = Next_earnings_date (Some s) \<and> s \<noteq> []
        \<and> (strptime s = None \<or> strptime front = None \<or> strptime back = None) \<longrightarrow>
        get_earnings_info strptime now (Some client) tk front back = None)
   \<and> (client tk = Next_earnings_date (Some s) \<and> s \<noteq> []
        \<and> strptime s = Some e_dt \<and> strptime front = Some f_dt \<and> strptime back = Some b_dt \<longrightarrow>
        get_earnings_info strptime now (Some client) tk front back =
          Some \<lparr>ei_ticker = tk, earnings_date = Some s,
                ei_has_earnings_soon = (\<bar>\<lfloor>real_of_int e_dt - now\<rfloor>\<bar> < 60),
                front_is_pre_earnings = (f_dt < e_dt),
                back_is_post_earnings = (b_dt > e_dt),
                both_post_earnings = (f_dt > e_dt \<and> b_dt > e_dt)\<rparr>)
   \<and> calculate_rating opp None p rr = calculate_rating opp (Some (no_catalyst tk)) p rr
   \<and> (lookup tk = None \<or> lookup tk = Some [] \<longrightarrow>
        yahoo_get_earnings_info strptime lookup tk front back =
          \<lparr>y_earnings_date = None, y_front_is_pre_earnings = False,
           y_back_is_post_earnings = False, y_both_post_earnings = False\<rparr>)
   \<and> (lookup tk = Some s \<and> s \<noteq> []
        \<and> (strptime s = None \<or> strptime front = None \<or> strptime back = None) \<longrightarrow>
        yahoo_get_earnings_info strptime lookup tk front back =
          \<lparr>y_earnings_date = Some s, y_front_is_pre_earnings = False,
           y_back_is_post_earnings = False, y_both_post_earnings = False\<rparr>)
   \<and> (lookup tk = Some s \<and> s \<noteq> []
        \<and> strptime s = Some e_dt \<and> strptime front = Some f_dt \<and> strptime back = Some b_dt \<longrightarrow>
        yahoo_get_earnings_info strptime lookup tk front back =
          \<lparr>y_earnings_date = Some s, y_front_is_pre_earnings = (f_dt < e_dt),
           y_back_is_post_earnings = (b_dt > e_dt),
           y_both_post_earnings = (f_dt > e_dt \<and> b_dt > e_dt)\<rparr>)"
proof -
  have 1: "get_earnings_info strptime now None tk front back = None"
    by (simp add: get_earnings_info_def)
  have 2: "get_earnings_info strptime now (Some client) tk front back = None"
    if "client tk = Client_raises"
    using that by (simp add: get_earnings_info_def get_earnings_info_body_def)
  have 3: "get_earnings_info strptime now (Some client) tk front back = Some (no_catalyst tk)"
    if "client tk = Next_earnings_date ed \<and> (ed = None \<or> ed = Some [])"
    using that by (auto simp add: get_earnings_info_def get_earnings_info_body_def no_catalyst_def)
  have 4: "get_earnings_info strptime now (Some client) tk front back = None"
    if h: "client tk = Next_earnings_date (Some s) \<and> s \<noteq> []
        \<and> (strptime s = None \<or> strptime front = None \<or> strptime back = None)"
  proof -
    from h obtain e where "get_earnings_info_body strptime now client tk front back = Inl e"
      using body_malformed [of client tk s strptime front "back" now] by blast
    then show ?thesis by (simp add: get_earnings_info_def)
  qed
  have 5: "get_earnings_info strptime now (Some client) tk front back =
          Some \<lparr>ei_ticker = tk, earnings_date = Some s,
                ei_has_earnings_soon = (\<bar>\<lfloor>real_of_int e_dt - now\<rfloor>\<bar> < 60),
                front_is_pre_earnings = (f_dt < e_dt),
                back_is_post_earnings = (b_dt > e_dt),
                both_post_earnings = (f_dt > e_dt \<and> b_dt > e_dt)\<rparr>"
    if "client tk = Next_earnings_date (Some s) \<and> s \<noteq> []
        \<and> strptime s = Some e_dt \<and> strptime front = Some f_dt \<and> strptime back = Some b_dt"
    using that
    by (simp add: get_earnings_info_def get_earnings_info_body_def py_strptime_def Let_def)
  have 6: "calculate_rating opp None p rr = calculate_rating opp (Some (no_catalyst tk)) p rr"
    by (simp add: rating_unfold catalyst_bonus_def no_catalyst_def)
  have 7: "yahoo_get_earnings_info strptime lookup tk front back =
          \<lparr>y_earnings_date = None, y_front_is_pre_earnings = False,
           y_back_is_post_earnings = False, y_both_post_earnings = False\<rparr>"
    if "lookup tk = None \<or> lookup tk = Some []"
    using that by (auto simp add: yahoo_get_earnings_info_def Let_def)
  have 8: "yahoo_get_earnings_info strptime lookup tk front back =
          \<lparr>y_earnings_date = Some s, y_front_is_pre_earnings = False,
           y_back_is_post_earnings = False, y_both_post_earnings = False\<rparr>"
    if h: "lookup tk = Some s \<and> s \<noteq> []
        \<and> (strptime s = None \<or> strptime front = None \<or> strptime back = None)"
  proof -
    from h obtain e where "yahoo_parse_dates strptime s front back = Inl e"
      using yahoo_malformed [of strptime s front "back"] by blast
    with h show ?thesis by (simp add: yahoo_get_earnings_info_def Let_def)
  qed
  have 9: "yahoo_get_earnings_info strptime lookup tk front back =
          \<lparr>y_earnings_date = Some s, y_front_is_pre_earnings = (f_dt < e_dt),
           y_back_is_post_earnings = (b_dt > e_dt),
           y_both_post_earnings = (f_dt > e_dt \<and> b_dt > e_dt)\<rparr>"
    if "lookup tk = Some s \<and> s \<noteq> []
        \<and> strptime s = Some e_dt \<and> strptime front = Some f_dt \<and> strptime back = Some b_dt"
    using that
    by (simp add: yahoo_get_earnings_info_def yahoo_parse_dates_def py_strptime_def Let_def)
  show ?thesis
  proof (intro conjI impI)
    show "get_earnings_info strptime now None tk front back = None" by (rule 1)
    show "calculate_rating opp None p rr = calculate_rating opp (Some (no_catalyst tk)) p rr"
      by (rule 6)
  qed (rule 2 3 4 5 7 8 9, assumption)+
qed

theorem earnings_resolver_degrades_witness:
  "get_earnings_info example_strptime 20138 (Some (example_client None))
       ''SOFI'' ''21 March 2025'' ''2025-04-18'' = Some (no_catalyst ''SOFI'')
   \<and> get_earnings_info example_strptime 20138 (Some (example_client (Some ''04/01/2025'')))
       ''SOFI'' ''2025-03-21'' ''2025-04-18'' = None
   \<and> get_earnings_info example_strptime 20138 (Some (example_client (Some ''2025-02-20'')))
       ''SOFI'' ''21 March 2025'' ''2025-04-18'' = None
   \<and> get_earnings_info example_strptime 20138 (Some (example_client (Some ''2025-04-18'')))
       ''SOFI'' ''2025-03-21'' ''2025-04-18'' =
          Some \<lparr>ei_ticker = ''SOFI'', earnings_date = Some ''2025-04-18'',
                ei_has_earnings_soon = True, front_is_pre_earnings = True,
                back_is_post_earnings = False, both_post_earnings = False\<rparr>
   \<and> yahoo_get_earnings_info example_strptime (example_lookup None)
       ''SOFI'' ''21 March 2025'' ''2025-04-18'' =
          \<lparr>y_earnings_date = None, y_front_is_pre_earnings = False,
           y_back_is_post_earnings = False, y_both_post_earnings = False\<rparr>
   \<and> yahoo_get_earnings_info example_strptime (example_lookup (Some ''2025-02-20''))
       ''SOFI'' ''21 March 2025'' ''2025-04-18'' =
          \<lparr>y_earnings_date = Some ''2025-02-20'', y_front_is_pre_earnings = False,
           y_back_is_post_earnings = False, y_both_post_earnings = False\<rparr>
   \<and> yahoo_get_earnings_info example_strptime (example_lookup (Some ''2025-02-20''))
       ''SOFI'' ''2025-03-21'' ''2025-04-18'' =
          \<lparr>y_earnings_date = Some ''2025-02-20'', y_front_is_pre_earnings = False,
           y_back_is_post_earnings = True, y_both_post_earnings = True\<rparr>"
  using earnings_resolver_degrades [of example_strptime 20138 "''SOFI''" "''21 March 2025''"
      "''2025-04-18''" "example_client None" None "''2025-02-20''" 20139 20168 20196
      example_opp 0 0 "example_lookup None"]
    earnings_resolver_degrades [of example_strptime 20138 "''SOFI''" "''2025-03-21''"
      "''2025-04-18''" "example_client (Some ''04/01/2025'')" None "''04/01/2025''"
      20139 20168 20196 example_opp 0 0 "example_lookup None"]
    earnings_resolver_degrades [of example_strptime 20138 "''SOFI''" "''21 March 2025''"
      "''2025-04-18''" "example_client (Some ''2025-02-20'')" None "''2025-02-20''"
      20139 20168 20196 example_opp 0 0 "example_lookup (Some ''2025-02-20'')"]
    earnings_resolver_degrades [of example_strptime 20138 "''SOFI''" "''2025-03-21''"
      "''2025-04-18''" "example_client (Some ''2025-04-18'')" None "''2025-04-18''"
      20196 20168 20196 example_opp 0 0 "example_lookup (Some ''2025-04-18'')"]
    earnings_resolver_degrades [of example_strptime 20138 "''SOFI''" "''2025-03-21''"
      "''2025-04-18''" "example_client None" None "''2025-02-20''"
      20139 20168 20196 example_opp 0 0 "example_lookup (Some ''2025-02-20'')"]
  by (simp add: example_client_def example_lookup_def example_strptime_def)

text \<open>
  The claim as stated fails where it says that malformed dates resolve to the same state as
  a missing earnings date: with a malformed earnings date the nightly scanner returns
  \<^verbatim>\<open>None\<close>, not the all-false \<^verbatim>\<open>EarningsInfo\<close>, and with a malformed expiration date the
  Yahoo calendar keeps the earnings date.
\<close>

theorem earnings_resolver_counterexample:
  "get_earnings_info example_strptime 20138 (Some (example_client (Some ''04/01/2025'')))
       ''SOFI'' ''2025-03-21'' ''2025-04-18'' = None
   \<and> get_earnings_info example_strptime 20138 (Some (example_client (Some ''04/01/2025'')))
       ''SOFI'' ''2025-03-21'' ''2025-04-18'' \<noteq> Some (no_catalyst ''SOFI'')
   \<and> get_earnings_info example_strptime 20138 (Some (example_client None))
       ''SOFI'' ''2025-03-21'' ''2025-04-18'' = Some (no_catalyst ''SOFI'')
   \<and> y_earnings_date (yahoo_get_earnings_info example_strptime
         (example_lookup (Some ''2025-02-20'')) ''SOFI'' ''21 March 2025'' ''2025-04-18'')
       = Some ''2025-02-20''
   \<and> y_earnings_date (yahoo_get_earnings_info example_strptime
         (example_lookup None) ''SOFI'' ''21 March 2025'' ''2025-04-18'') = None"
  by (simp add: get_earnings_info_def get_earnings_info_body_def py_strptime_def
      yahoo_get_earnings_info_def yahoo_parse_dates_def Let_def no_catalyst_def
      example_client_def example_lookup_def example_strptime_def)

end
